theory Spec2Isabelle
  imports Complex_Main
begin

section \<open>JavaScript values used by the workflow\<close>

text \<open>
  Strings are lists of 8-bit code units. A value of type \<open>string | null\<close> is a
  \<open>string option\<close>. Sizes and counters are naturals.

  A JavaScript \<open>number\<close> that a caller hands to the store is a \<open>js_number\<close>: a finite
  value (a real number here, rounding left aside), one of the two infinities, or NaN.
  \<open>Math.min\<close> and \<open>Math.max\<close> return NaN as soon as one argument is NaN. The numbers the
  steps compute themselves (the shown progress, which starts from a constant and only goes
  through finite arithmetic on clock readings) are reals.
\<close>

datatype js_number = Num real | PosInfinity | NegInfinity | NaN

fun js_min :: "js_number \<Rightarrow> js_number \<Rightarrow> js_number" where
  "js_min NaN b = NaN"
| "js_min a NaN = NaN"
| "js_min NegInfinity b = NegInfinity"
| "js_min a NegInfinity = NegInfinity"
| "js_min PosInfinity b = b"
| "js_min a PosInfinity = a"
| "js_min (Num x) (Num y) = Num (min x y)"

fun js_max :: "js_number \<Rightarrow> js_number \<Rightarrow> js_number" where
  "js_max NaN b = NaN"
| "js_max a NaN = NaN"
| "js_max PosInfinity b = PosInfinity"
| "js_max a PosInfinity = PosInfinity"
| "js_max NegInfinity b = b"
| "js_max a NegInfinity = a"
| "js_max (Num x) (Num y) = Num (max x y)"

text \<open>A number that lies in [0, 100].\<close>

definition in_percent :: "js_number \<Rightarrow> bool" where
  "in_percent v = (case v of Num r \<Rightarrow> 0 \<le> r \<and> r \<le> 100 | _ \<Rightarrow> False)"

definition truthy :: "string \<Rightarrow> bool" where
  "truthy s = (s \<noteq> [])"

definition truthy_opt :: "string option \<Rightarrow> bool" where
  "truthy_opt v = (case v of None \<Rightarrow> False | Some s \<Rightarrow> truthy s)"

text \<open>\<open>a || b\<close> on a possibly missing string and a default.\<close>

definition or_else :: "string option \<Rightarrow> string \<Rightarrow> string" where
  "or_else v d = (case v of None \<Rightarrow> d | Some s \<Rightarrow> if truthy s then s else d)"

definition startsWith :: "string \<Rightarrow> string \<Rightarrow> bool" where
  "startsWith s p = (take (length p) s = p)"

primrec str_includes :: "string \<Rightarrow> string \<Rightarrow> bool" where
  "str_includes [] sub = (sub = [])"
| "str_includes (c # cs) sub = (startsWith (c # cs) sub \<or> str_includes cs sub)"

text \<open>
  \<open>String.prototype.trim\<close> strips white space and line terminators; among the code units
  below 256 these are TAB, LF, VT, FF, CR, the space and the no-break space.
\<close>

definition is_space :: "char \<Rightarrow> bool" where
  "is_space c =
     (c \<in> set [CHR '' '', CHR 0x09, CHR 0x0A, CHR 0x0B, CHR 0x0C, CHR 0x0D, CHR 0xA0])"

definition trim :: "string \<Rightarrow> string" where
  "trim s = rev (dropWhile is_space (rev (dropWhile is_space s)))"

text \<open>Decimal rendering of a number inside a template literal.\<close>

fun string_of_nat :: "nat \<Rightarrow> string" where
  "string_of_nat n =
     (if n < 10 then [''0123456789'' ! n]
      else string_of_nat (n div 10) @ [''0123456789'' ! (n mod 10)])"

declare string_of_nat.simps [simp del]

text \<open>
  A thrown value: an \<open>Error\<close> instance with its message, or any other value (such as the
  event a \<open>FileReader\<close> rejects with) together with its \<open>String(...)\<close> rendering.
\<close>

datatype js_error = JsError string | NonError string

type_synonym 'a result = "js_error + 'a"

type_synonym storage = "string \<Rightarrow> string option"

section \<open>The workflow store\<close>

datatype ProcessingStep = Upload | Enhance | Prompt | Generate | Complete

record File =
  fname :: string
  ftype :: string
  fsize :: nat

record MemoryState =
  currentStep :: ProcessingStep
  originalImage :: "File option"
  originalImageUrl :: "string option"
  originalImageDataUrl :: "string option"
  enhancedImageUrl :: "string option"
  enhancedImageCaption :: "string option"
  videoUrl :: "string option"
  userNote :: string
  motionPrompt :: string
  isProcessing :: bool
  progress :: js_number
  error :: "string option"
  apiKey :: "string option"
  processingStartTime :: "real option"
  estimatedTimeRemaining :: "js_number option"

definition initialState :: MemoryState where
  "initialState =
     \<lparr> currentStep = Upload,
       originalImage = None,
       originalImageUrl = None,
       originalImageDataUrl = None,
       enhancedImageUrl = None,
       enhancedImageCaption = None,
       videoUrl = None,
       userNote = [],
       motionPrompt = [],
       isProcessing = False,
       progress = Num 0,
       error = None,
       apiKey = None,
       processingStartTime = None,
       estimatedTimeRemaining = None \<rparr>"

text \<open>Each action is one \<open>set\<close> call of the store: a single update of the state record.\<close>

definition setCurrentStep :: "ProcessingStep \<Rightarrow> MemoryState \<Rightarrow> MemoryState" where
  "setCurrentStep step s = s\<lparr>currentStep := step, error := None\<rparr>"

definition setOriginalImage :: "File \<Rightarrow> string \<Rightarrow> MemoryState \<Rightarrow> MemoryState" where
  "setOriginalImage file url s =
     s\<lparr> originalImage := Some file,
        originalImageUrl := Some url,
        originalImageDataUrl := Some url,
        enhancedImageUrl := None,
        enhancedImageCaption := None,
        videoUrl := None,
        motionPrompt := [],
        userNote := [],
        error := None,
        currentStep := Enhance \<rparr>"

definition setEnhancedImage :: "string \<Rightarrow> string option \<Rightarrow> MemoryState \<Rightarrow> MemoryState" where
  "setEnhancedImage url caption s =
     s\<lparr> enhancedImageUrl := Some url,
        enhancedImageCaption := (if truthy_opt caption then caption else None),
        currentStep := Generate \<rparr>"

definition setVideoUrl :: "string \<Rightarrow> MemoryState \<Rightarrow> MemoryState" where
  "setVideoUrl url s =
     s\<lparr>videoUrl := Some url, currentStep := Complete, isProcessing := False,
        progress := Num 100\<rparr>"

definition setUserNote :: "string \<Rightarrow> MemoryState \<Rightarrow> MemoryState" where
  "setUserNote note s = s\<lparr>userNote := note\<rparr>"

definition setMotionPrompt :: "string \<Rightarrow> MemoryState \<Rightarrow> MemoryState" where
  "setMotionPrompt p s = s\<lparr>motionPrompt := p\<rparr>"

definition setProcessing :: "bool \<Rightarrow> MemoryState \<Rightarrow> MemoryState" where
  "setProcessing b s = s\<lparr>isProcessing := b\<rparr>"

definition setProgress :: "js_number \<Rightarrow> MemoryState \<Rightarrow> MemoryState" where
  "setProgress p s = s\<lparr>progress := js_max (Num 0) (js_min (Num 100) p)\<rparr>"

definition setError :: "string option \<Rightarrow> MemoryState \<Rightarrow> MemoryState" where
  "setError e s = s\<lparr>error := e, isProcessing := False\<rparr>"

definition setApiKey :: "string \<Rightarrow> MemoryState \<Rightarrow> MemoryState" where
  "setApiKey k s = s\<lparr>apiKey := Some (trim k)\<rparr>"

definition clearApiKey :: "MemoryState \<Rightarrow> MemoryState" where
  "clearApiKey s = s\<lparr>apiKey := None\<rparr>"

text \<open>\<open>startProcessing\<close> reads the clock; the reading is its argument.\<close>

definition startProcessing :: "real \<Rightarrow> MemoryState \<Rightarrow> MemoryState" where
  "startProcessing now s =
     s\<lparr> isProcessing := True, processingStartTime := Some now, error := None,
        progress := Num 0 \<rparr>"

definition completeProcessing :: "MemoryState \<Rightarrow> MemoryState" where
  "completeProcessing s =
     s\<lparr> isProcessing := False, processingStartTime := None,
        estimatedTimeRemaining := None, progress := Num 100 \<rparr>"

definition setEstimatedTime :: "js_number \<Rightarrow> MemoryState \<Rightarrow> MemoryState" where
  "setEstimatedTime seconds s = s\<lparr>estimatedTimeRemaining := Some seconds\<rparr>"

text \<open>
  \<open>URL.revokeObjectURL\<close> acts on the browser, outside the store. The browser side is the
  list of URLs revoked so far, passed along with the state.
\<close>

definition is_blob :: "string option \<Rightarrow> bool" where
  "is_blob u = (case u of None \<Rightarrow> False | Some v \<Rightarrow> startsWith v ''blob:'')"

definition revokeObjectURL :: "string option \<Rightarrow> string list \<Rightarrow> string list" where
  "revokeObjectURL u revoked =
     (case u of
        None \<Rightarrow> revoked
      | Some v \<Rightarrow> if startsWith v ''blob:'' then revoked @ [v] else revoked)"

definition resetWorkflow :: "MemoryState \<times> string list \<Rightarrow> MemoryState \<times> string list" where
  "resetWorkflow w =
     (case w of (s, revoked) \<Rightarrow>
        (initialState\<lparr>apiKey := apiKey s\<rparr>,
         revokeObjectURL (videoUrl s) (revokeObjectURL (originalImageUrl s) revoked)))"

definition clearMedia :: "MemoryState \<times> string list \<Rightarrow> MemoryState \<times> string list" where
  "clearMedia w =
     (case w of (s, revoked) \<Rightarrow>
        (s\<lparr> originalImage := None, originalImageUrl := None, enhancedImageUrl := None,
            videoUrl := None, currentStep := Upload, progress := Num 0, error := None \<rparr>,
         revokeObjectURL (videoUrl s) (revokeObjectURL (originalImageUrl s) revoked)))"

definition canProceedToStep :: "ProcessingStep \<Rightarrow> MemoryState \<Rightarrow> bool" where
  "canProceedToStep step s =
     (case step of
        Upload \<Rightarrow> True
      | Enhance \<Rightarrow> originalImage s \<noteq> None
      | Prompt \<Rightarrow> truthy_opt (enhancedImageUrl s)
      | Generate \<Rightarrow> truthy (motionPrompt s)
      | Complete \<Rightarrow> truthy_opt (videoUrl s))"

section \<open>Upload: validation and the upload handler\<close>

record Validation =
  isValid :: bool
  validationError :: "string option"

definition validateImageFile :: "File \<Rightarrow> Validation" where
  "validateImageFile file =
     (let supportedTypes = [''image/jpeg'', ''image/png'', ''image/webp''];
          maxSize = 10 * 1024 * 1024
      in if ftype file \<notin> set supportedTypes then
           \<lparr> isValid = False,
             validationError =
               Some ''Unsupported file type. Please use JPEG, PNG, or WebP images.'' \<rparr>
         else if fsize file > maxSize then
           \<lparr> isValid = False,
             validationError = Some ''File is too large. Please use an image under 10MB.'' \<rparr>
         else \<lparr> isValid = True, validationError = None \<rparr>)"

text \<open>\<open>str.split(',')[1]\<close>: the text between the first and the second comma, undefined when
  the string has no comma.\<close>

definition split_second :: "string \<Rightarrow> string option" where
  "split_second s =
     (case dropWhile (\<lambda>c. c \<noteq> CHR '','') s of
        [] \<Rightarrow> None
      | _ # t \<Rightarrow> Some (takeWhile (\<lambda>c. c \<noteq> CHR '','') t))"

text \<open>
  \<open>processImageForGemini\<close> awaits the compression library and a \<open>FileReader\<close>; their
  outcomes are its arguments. Whatever either of them throws is replaced by one fixed error.
\<close>

record Processed =
  processedFile :: File
  processedDataUrl :: string
  processedBase64 :: "string option"

definition processImageForGemini ::
  "File result \<Rightarrow> (File \<Rightarrow> string result) \<Rightarrow> Processed result" where
  "processImageForGemini compressed fileToDataUrl =
     (case compressed of
        Inl e \<Rightarrow> Inl (JsError ''Failed to process image. Please try a different image.'')
      | Inr compressedFile \<Rightarrow>
          (case fileToDataUrl compressedFile of
             Inl e \<Rightarrow> Inl (JsError ''Failed to process image. Please try a different image.'')
           | Inr url \<Rightarrow>
               Inr \<lparr> processedFile = compressedFile, processedDataUrl = url,
                     processedBase64 = split_second url \<rparr>))"

record UploadLocal =
  isDragOver :: bool
  uploadProcessing :: bool
  uploadError :: "string option"

definition error_message :: "js_error \<Rightarrow> string \<Rightarrow> string" where
  "error_message e fallback = (case e of JsError m \<Rightarrow> m | NonError _ \<Rightarrow> fallback)"

definition handleFile ::
  "File result \<Rightarrow> (File \<Rightarrow> string result) \<Rightarrow> File \<Rightarrow>
   UploadLocal \<times> MemoryState \<Rightarrow> UploadLocal \<times> MemoryState" where
  "handleFile compressed fileToDataUrl file w =
     (case w of (l, s) \<Rightarrow>
        (let l1 = l\<lparr>uploadError := None, uploadProcessing := True\<rparr>;
             validation = validateImageFile file
         in if \<not> isValid validation then
              (l1\<lparr> uploadError := Some (or_else (validationError validation) ''Invalid file''),
                   uploadProcessing := False \<rparr>, s)
            else
              (case processImageForGemini compressed fileToDataUrl of
                 Inl err \<Rightarrow>
                   (l1\<lparr> uploadError := Some (error_message err ''Failed to process image.''),
                        uploadProcessing := False \<rparr>, s)
               | Inr p \<Rightarrow>
                   (l1\<lparr>uploadProcessing := False\<rparr>,
                    setOriginalImage file (processedDataUrl p) s))))"

section \<open>Enhancement providers\<close>

text \<open>
  A response of the Gemini client. \<open>response.candidates?.[0]?.content?.parts\<close> is read
  through optional chaining: the response is the list of its candidates, each one its list
  of parts, or nothing when the content or its parts are missing.
\<close>

record InlineData =
  inlineMimeType :: string
  inlineBytes :: string

record CandidatePart =
  partText :: "string option"
  inlineData :: "InlineData option"

type_synonym gen_response = "CandidatePart list option list"

definition first_parts :: "gen_response \<Rightarrow> CandidatePart list" where
  "first_parts r = (case r of Some ps # _ \<Rightarrow> ps | _ \<Rightarrow> [])"

record GeminiImageResponse =
  images :: "string list"
  caption :: string

text \<open>The loop over the parts, with the two accumulators of the source.\<close>

fun collect_parts :: "CandidatePart list \<Rightarrow> string list \<Rightarrow> string \<Rightarrow> string list \<times> string" where
  "collect_parts [] imgs cap = (imgs, cap)"
| "collect_parts (p # ps) imgs cap =
     (let cap1 = (case partText p of
                    None \<Rightarrow> cap
                  | Some t \<Rightarrow> if truthy t then cap @ t @ [CHR 0x0A] else cap);
          imgs1 = (case inlineData p of
                     None \<Rightarrow> imgs
                   | Some i \<Rightarrow>
                       if truthy (inlineBytes i) \<and> truthy (inlineMimeType i)
                       then imgs @ [''data:'' @ inlineMimeType i @ '';base64,'' @ inlineBytes i]
                       else imgs)
      in collect_parts ps imgs1 cap1)"

definition enhance_catch :: "js_error \<Rightarrow> js_error" where
  "enhance_catch e =
     (case e of
        JsError m \<Rightarrow>
          if str_includes m ''quota'' then
            JsError ''API quota exceeded. Please check your Gemini API usage limits.''
          else if str_includes m ''safety'' then
            JsError ''Image was rejected for safety reasons. Please try a different image.''
          else if str_includes m ''key'' then
            JsError ''Invalid API key. Please check your Gemini API key.''
          else JsError ''Failed to enhance image. Please try again.''
      | NonError _ \<Rightarrow> JsError ''Failed to enhance image. Please try again.'')"

text \<open>
  \<open>GeminiService.enhanceImage\<close>. \<open>ready\<close> says that the client was initialised;
  \<open>resp\<close> is the outcome of the awaited \<open>generateContent\<close> call. The optional user note
  does not reach the instruction text and is left out.
\<close>

definition geminiEnhanceImage ::
  "bool \<Rightarrow> gen_response result \<Rightarrow> string \<Rightarrow> string \<Rightarrow> GeminiImageResponse result" where
  "geminiEnhanceImage ready resp base64Image mimeType =
     (if \<not> ready then
        Inl (JsError ''Gemini service not initialized. Please provide an API key.'')
      else
        (case resp of
           Inl e \<Rightarrow> Inl (enhance_catch e)
         | Inr r \<Rightarrow>
             (case collect_parts (first_parts r) [] [] of (imgs, cap) \<Rightarrow>
                if length imgs = 0 then
                  Inr \<lparr> images = imgs @ [''data:'' @ mimeType @ '';base64,'' @ base64Image],
                        caption = trim (if \<not> truthy cap
                                        then ''Image processed successfully'' else cap) \<rparr>
                else Inr \<lparr> images = imgs, caption = trim cap \<rparr>)))"

text \<open>\<open>ReplicateService.enhanceImage\<close>: the \<open>output\<close> field of the prediction.\<close>

datatype rep_output = OutArray "string list" | OutString string | OutOther

datatype rep_enhance_response =
    RepEnhanceThrows js_error
  | RepEnhanceNotOk nat
  | RepEnhanceJson rep_output

record ReplicateImage =
  imageUrl :: string
  replicateCaption :: "string option"

definition replicateEnhanceImage ::
  "string option \<Rightarrow> rep_enhance_response \<Rightarrow> ReplicateImage result" where
  "replicateEnhanceImage apiToken resp =
     (if \<not> truthy_opt apiToken then Inl (JsError ''Replicate API token not set'')
      else
        (case resp of
           RepEnhanceThrows e \<Rightarrow> Inl e
         | RepEnhanceNotOk status \<Rightarrow>
             Inl (JsError (''Replicate API error: '' @ string_of_nat status))
         | RepEnhanceJson out \<Rightarrow>
             (case out of
                OutArray (u # us) \<Rightarrow>
                  Inr \<lparr> imageUrl = u, replicateCaption = Some ''Enhanced with AI'' \<rparr>
              | OutString u \<Rightarrow>
                  Inr \<lparr> imageUrl = u, replicateCaption = Some ''Enhanced with AI'' \<rparr>
              | _ \<Rightarrow> Inl (JsError ''No enhanced image in response''))))"

section \<open>The enhancement step\<close>

text \<open>The first match of the unanchored pattern \<open>/data:([^;]+)/\<close>: its capture group.\<close>

fun match_data_mime :: "string \<Rightarrow> string option" where
  "match_data_mime [] = None"
| "match_data_mime (c # cs) =
     (if startsWith (c # cs) ''data:'' \<and>
         takeWhile (\<lambda>x. x \<noteq> CHR '';'') (drop 5 (c # cs)) \<noteq> []
      then Some (takeWhile (\<lambda>x. x \<noteq> CHR '';'') (drop 5 (c # cs)))
      else match_data_mime cs)"

text \<open>A possibly undefined string as a template literal prints it.\<close>

definition js_string :: "string option \<Rightarrow> string" where
  "js_string v = (case v of None \<Rightarrow> ''undefined'' | Some s \<Rightarrow> s)"

record EnhanceLocal =
  isEnhancing :: bool
  enhanceError :: "string option"
  enhanceProgress :: real
  imageLoaded :: bool
  hasEnhanced :: bool
  autoAdvanceTimer :: "(nat \<times> ProcessingStep) option"

text \<open>
  What the step meets outside itself: local storage, the two providers' answers, and
  whether the Gemini client was initialised. The calls made to the providers are recorded
  in order.
\<close>

record EnhanceEnv =
  enhStorage :: storage
  enhReplicate :: rep_enhance_response
  enhGeminiReady :: bool
  enhGemini :: "gen_response result"

datatype enhance_call =
    ReplicateEnhance string string
  | GeminiEnhance string string

text \<open>The simulated progress: one callback of the 400 ms interval.\<close>

definition enhance_tick :: "real \<Rightarrow> real" where
  "enhance_tick prev = min (prev + 10) 90"

definition gemini_fallback ::
  "EnhanceEnv \<Rightarrow> string \<Rightarrow> (string option \<times> string) result \<times> enhance_call list" where
  "gemini_fallback env img =
     (let base64 = js_string (split_second img);
          mimeType = or_else (match_data_mime img) ''image/jpeg''
      in (case geminiEnhanceImage (enhGeminiReady env) (enhGemini env) base64 mimeType of
            Inl e \<Rightarrow> Inl e
          | Inr g \<Rightarrow> Inr (case images g of [] \<Rightarrow> None | u # _ \<Rightarrow> Some u, caption g),
          [GeminiEnhance base64 mimeType]))"

definition enhance_providers ::
  "EnhanceEnv \<Rightarrow> string \<Rightarrow> (string option \<times> string) result \<times> enhance_call list" where
  "enhance_providers env img =
     (case enhStorage env ''REPLICATE_API_TOKEN'' of
        None \<Rightarrow> gemini_fallback env img
      | Some replicateToken \<Rightarrow>
          if truthy replicateToken then
            (case replicateEnhanceImage (Some replicateToken) (enhReplicate env) of
               Inr r \<Rightarrow>
                 (Inr (Some (imageUrl r), or_else (replicateCaption r) ''Enhanced with AI''),
                  [ReplicateEnhance replicateToken img])
             | Inl replicateError \<Rightarrow>
                 (case gemini_fallback env img of (res, calls) \<Rightarrow>
                    (res, ReplicateEnhance replicateToken img # calls)))
          else gemini_fallback env img)"

text \<open>
  \<open>startEnhancement\<close>. Once a provider has returned, the step writes progress 100 and only
  then looks at the image URL; with no URL it throws, and its own \<open>catch\<close> writes 0 again.
\<close>

definition startEnhancement ::
  "EnhanceEnv \<Rightarrow> EnhanceLocal \<times> MemoryState \<Rightarrow>
   (EnhanceLocal \<times> MemoryState) \<times> enhance_call list" where
  "startEnhancement env w =
     (case w of (l, s) \<Rightarrow>
        (case originalImageDataUrl s of
           None \<Rightarrow> ((l, s), [])
         | Some img \<Rightarrow>
             if \<not> truthy img then ((l, s), [])
             else
               (let l1 = l\<lparr>isEnhancing := True, enhanceError := None, enhanceProgress := 0\<rparr>
                in (case enhance_providers env img of
                      (Inl e, calls) \<Rightarrow>
                        ((l1\<lparr> enhanceProgress := 0,
                              enhanceError := Some (error_message e ''Enhancement failed''),
                              isEnhancing := False \<rparr>, s), calls)
                    | (Inr (url, cap), calls) \<Rightarrow>
                        (let l2 = l1\<lparr>enhanceProgress := 100\<rparr>
                         in (case url of
                               Some u \<Rightarrow>
                                 if truthy u then
                                   ((l2\<lparr> imageLoaded := False, hasEnhanced := True,
                                         autoAdvanceTimer := Some (3500, Generate) \<rparr>,
                                     setEnhancedImage u (Some cap) s), calls)
                                 else
                                   ((l2\<lparr> enhanceProgress := 0,
                                         enhanceError :=
                                           Some ''No enhanced image was generated'',
                                         isEnhancing := False \<rparr>, s), calls)
                             | None \<Rightarrow>
                                 ((l2\<lparr> enhanceProgress := 0,
                                       enhanceError := Some ''No enhanced image was generated'',
                                       isEnhancing := False \<rparr>, s), calls)))))))"

section \<open>The motion prompt from the text provider\<close>

definition lower_char :: "char \<Rightarrow> char" where
  "lower_char c =
     (case map_of (zip ''ABCDEFGHIJKLMNOPQRSTUVWXYZ'' ''abcdefghijklmnopqrstuvwxyz'') c of
        None \<Rightarrow> c
      | Some d \<Rightarrow> d)"

text \<open>The capture group of \<open>/^data:([^;]+);base64,/i\<close>.\<close>

definition match_data_base64 :: "string \<Rightarrow> string option" where
  "match_data_base64 s =
     (let m = takeWhile (\<lambda>x. x \<noteq> CHR '';'') (drop 5 s);
          rest = dropWhile (\<lambda>x. x \<noteq> CHR '';'') (drop 5 s)
      in if map lower_char (take 5 s) = ''data:'' \<and> m \<noteq> [] \<and>
            map lower_char (take 8 rest) = '';base64,''
         then Some m else None)"

datatype image_fetch =
    ImageFetchThrows js_error
  | ImageFetchNotOk nat
  | ImageFetchBlob string "string result"

definition is_quote :: "char \<Rightarrow> bool" where
  "is_quote c = (c = CHR 0x22 \<or> c = CHR 0x27)"

text \<open>\<open>.replace(/^["']|["']$/g, '')\<close>: one quote off the front, then one off the end.\<close>

definition strip_quotes :: "string \<Rightarrow> string" where
  "strip_quotes s =
     (let s1 = (case s of [] \<Rightarrow> [] | c # cs \<Rightarrow> if is_quote c then cs else s)
      in if s1 \<noteq> [] \<and> is_quote (last s1) then butlast s1 else s1)"

text \<open>\<open>.replace(/\n+/g, ' ')\<close>: each run of line feeds becomes one space.\<close>

function collapse_newlines :: "string \<Rightarrow> string" where
  "collapse_newlines [] = []"
| "collapse_newlines (c # cs) =
     (if c = CHR 0x0A then CHR '' '' # collapse_newlines (dropWhile (\<lambda>x. x = CHR 0x0A) cs)
      else c # collapse_newlines cs)"
  by pat_completeness auto
termination
  by (relation "measure length") (auto simp: length_dropWhile_le le_imp_less_Suc)

text \<open>
  What \<open>generateVideoPromptFromImage\<close> meets: whether the client was initialised, the fetch
  of an image given by an HTTP URL (with the \<open>FileReader\<close> outcome), the answer of
  \<open>generateContent\<close>, and the platform's \<open>JSON.stringify\<close> of the error object built around
  a message. The instruction text sent along does not influence the answer and is left out.
\<close>

record PromptEnv =
  promptReady :: bool
  promptImageFetch :: image_fetch
  promptContent :: "gen_response result"
  promptStringify :: "string \<Rightarrow> string"

definition prompt_image :: "PromptEnv \<Rightarrow> string \<Rightarrow> (string \<times> string) result" where
  "prompt_image env imageDataUrl =
     (if startsWith imageDataUrl ''data:'' then
        (let mimeType = or_else (match_data_base64 imageDataUrl) ''image/jpeg'';
             base64 = or_else (split_second imageDataUrl) []
         in if \<not> truthy base64 then Inl (JsError ''Invalid data URL: missing base64 data'')
            else Inr (base64, mimeType))
      else if startsWith imageDataUrl ''http'' then
        (case promptImageFetch env of
           ImageFetchThrows e \<Rightarrow> Inl e
         | ImageFetchNotOk status \<Rightarrow>
             Inl (JsError (''Failed to fetch image: '' @ string_of_nat status))
         | ImageFetchBlob blobType reader \<Rightarrow>
             (case reader of
                Inl e \<Rightarrow> Inl e
              | Inr dataUrl \<Rightarrow>
                  Inr (or_else (split_second dataUrl) [], or_else (Some blobType) ''image/jpeg'')))
      else Inl (JsError ''Invalid image format: must be either a data URL or HTTP URL''))"

definition prompt_text :: "gen_response \<Rightarrow> string" where
  "prompt_text r =
     (case first_parts r of
        [] \<Rightarrow> []
      | p # _ \<Rightarrow> (case partText p of None \<Rightarrow> [] | Some t \<Rightarrow> trim t))"

definition prompt_catch :: "PromptEnv \<Rightarrow> js_error \<Rightarrow> js_error" where
  "prompt_catch env e =
     (case e of
        JsError m \<Rightarrow>
          if startsWith m ''ApiError:'' then JsError m
          else JsError (''ApiError: '' @ promptStringify env m)
      | NonError v \<Rightarrow> NonError v)"

definition generateVideoPromptFromImage :: "PromptEnv \<Rightarrow> string \<Rightarrow> string result" where
  "generateVideoPromptFromImage env imageDataUrl =
     (if \<not> promptReady env then
        Inl (JsError ''Gemini service not initialized. Please provide an API key.'')
      else
        (case prompt_image env imageDataUrl of
           Inl e \<Rightarrow> Inl (prompt_catch env e)
         | Inr (base64, mimeType) \<Rightarrow>
             (case promptContent env of
                Inl e \<Rightarrow> Inl (prompt_catch env e)
              | Inr r \<Rightarrow>
                  if \<not> truthy (prompt_text r) then
                    Inl (prompt_catch env (JsError ''No motion prompt was generated''))
                  else Inr (trim (collapse_newlines (strip_quotes (prompt_text r)))))))"

section \<open>Video providers\<close>

subsection \<open>The alternate provider (Replicate)\<close>

record ReplicateInput =
  inputPrompt :: string
  inputDuration :: nat
  inputResolution :: string
  inputAspectRatio :: string
  inputImage :: "string option"
  inputFps :: nat
  inputCameraFixed :: bool

record ReplicateRequest =
  requestUrl :: string
  requestAuthorization :: string
  requestPrefer :: string
  requestInput :: ReplicateInput

datatype replicate_response =
    ReplicateThrows js_error
  | ReplicateNotOk nat string
  | ReplicateJson "string option"

text \<open>
  \<open>generateVideoWithReplicate\<close> reads the token from local storage itself. The result
  comes with the request that was sent, if one was.
\<close>

definition generateVideoWithReplicate ::
  "storage \<Rightarrow> replicate_response \<Rightarrow> string \<Rightarrow> string option \<Rightarrow> nat \<Rightarrow> string \<Rightarrow> string \<Rightarrow>
   string result \<times> ReplicateRequest option" where
  "generateVideoWithReplicate ls resp p img duration resolution aspectRatio =
     (case ls ''REPLICATE_API_TOKEN'' of
        None \<Rightarrow>
          (Inl (JsError
             ''Missing Replicate API token. Set REPLICATE_API_TOKEN in localStorage.''), None)
      | Some token \<Rightarrow>
          if \<not> truthy token then
            (Inl (JsError
               ''Missing Replicate API token. Set REPLICATE_API_TOKEN in localStorage.''), None)
          else
            (let body = \<lparr> inputPrompt = p, inputDuration = duration,
                          inputResolution = resolution, inputAspectRatio = aspectRatio,
                          inputImage = (if truthy_opt img then img else None),
                          inputFps = 24, inputCameraFixed = False \<rparr>;
                 req = \<lparr> requestUrl =
                           ''/replicate/v1/models/bytedance/seedance-1-pro/predictions'',
                         requestAuthorization = ''Bearer '' @ token,
                         requestPrefer = ''wait'',
                         requestInput = body \<rparr>
             in (case resp of
                   ReplicateThrows e \<Rightarrow> (Inl e, Some req)
                 | ReplicateNotOk status txt \<Rightarrow>
                     (Inl (JsError (''Replicate failed ('' @ string_of_nat status @ ''): '' @ txt)),
                      Some req)
                 | ReplicateJson out \<Rightarrow>
                     (case out of
                        None \<Rightarrow>
                          (Inl (JsError ''Replicate did not return an output URL.''), Some req)
                      | Some outputUrl \<Rightarrow>
                          if truthy outputUrl then (Inr outputUrl, Some req)
                          else (Inl (JsError ''Replicate did not return an output URL.''),
                                Some req)))))"


subsection \<open>The primary provider (VEO)\<close>

text \<open>
  A long-running operation as the polling endpoint reports it. \<open>opVideo\<close> is
  \<open>response?.generatedVideos?.[0]?.video\<close>: absent, or a file reference whose \<open>uri\<close>
  may itself be absent.
\<close>

record Operation =
  opDone :: bool
  opName :: string
  opVideo :: "string option option"

datatype start_response = StartThrows js_error | StartNotOk string | StartJson Operation

datatype poll_response = PollThrows js_error | PollNotOk | PollJson Operation

datatype download_response = DownloadThrows js_error | DownloadNotOk nat | DownloadBlob string

text \<open>
  The environment of one generation: the answer to the start request, the answer to the
  k-th poll (counted from 0), the answer to the download (with the object URL the browser
  creates for the blob), and the fetch of an image given by an HTTP URL.
\<close>

record VeoEnv =
  veoStart :: start_response
  veoPolls :: "nat \<Rightarrow> poll_response"
  veoDownload :: download_response
  veoImageFetch :: image_fetch

record PollState =
  currentOperation :: Operation
  pollCount :: nat
  waitedMs :: nat
  progressLog :: "string list"

definition maxPolls :: nat where
  "maxPolls = 30"

definition report :: "bool \<Rightarrow> string \<Rightarrow> string list \<Rightarrow> string list" where
  "report onProgress msg lg = (if onProgress then lg @ [msg] else lg)"

text \<open>
  The poll loop: while the operation is not done and fewer than \<open>maxPolls\<close> polls were
  made, wait 10 seconds, poll, take over the answer if the response is ok, and count the
  poll. A poll that throws leaves the loop with the error.
\<close>

function poll_loop ::
  "(nat \<Rightarrow> poll_response) \<Rightarrow> bool \<Rightarrow> PollState \<Rightarrow> js_error option \<times> PollState" where
  "poll_loop polls onProgress st =
     (if \<not> opDone (currentOperation st) \<and> pollCount st < maxPolls then
        (let st1 = st\<lparr> progressLog :=
                          report onProgress
                            (''Generating video... ('' @ string_of_nat (pollCount st * 10) @
                             ''s elapsed)'') (progressLog st),
                        waitedMs := waitedMs st + 10000 \<rparr>
         in (case polls (pollCount st) of
               PollThrows e \<Rightarrow> (Some e, st1)
             | PollNotOk \<Rightarrow> poll_loop polls onProgress (st1\<lparr>pollCount := pollCount st + 1\<rparr>)
             | PollJson operation \<Rightarrow>
                 poll_loop polls onProgress
                   (st1\<lparr>currentOperation := operation, pollCount := pollCount st + 1\<rparr>)))
      else (None, st))"
  by pat_completeness auto
termination
  by (relation "measure (\<lambda>(polls, onProgress, st). maxPolls - pollCount st)") auto

declare poll_loop.simps [simp del]

record VeoRequest =
  veoPrompt :: string
  veoImageBytes :: "string option"
  veoMimeType :: string

record VeoRun =
  veoResult :: "string result"
  veoRequest :: "VeoRequest option"
  veoPollCount :: nat
  veoWaitedMs :: nat
  veoLog :: "string list"

definition veo_catch :: "js_error \<Rightarrow> js_error" where
  "veo_catch e =
     (case e of
        JsError m \<Rightarrow>
          if str_includes m ''quota'' then
            JsError ''API quota exceeded. Please check your API usage limits.''
          else if str_includes m ''safety'' then
            JsError ''Content was rejected for safety reasons. Please try different content.''
          else JsError m
      | NonError _ \<Rightarrow> JsError ''Failed to generate video. Please try again.'')"

definition veo_fail :: "js_error \<Rightarrow> VeoRequest option \<Rightarrow> PollState \<Rightarrow> VeoRun" where
  "veo_fail e req st =
     \<lparr> veoResult = Inl e, veoRequest = req, veoPollCount = pollCount st,
       veoWaitedMs = waitedMs st, veoLog = progressLog st \<rparr>"

text \<open>What follows the poll loop inside the \<open>try\<close> block: the timeout check, the file
  reference and the download.\<close>

definition veo_finish ::
  "VeoEnv \<Rightarrow> bool \<Rightarrow> VeoRequest option \<Rightarrow> PollState \<Rightarrow> VeoRun" where
  "veo_finish env onProgress req st =
     (if \<not> opDone (currentOperation st) then
        veo_fail (veo_catch (JsError ''Video generation timed out. Please try again.'')) req st
      else
        (case opVideo (currentOperation st) of
           None \<Rightarrow> veo_fail (veo_catch (JsError ''No video was generated.'')) req st
         | Some fileUri \<Rightarrow>
             if \<not> truthy_opt fileUri then
               veo_fail (veo_catch (JsError ''No downloadable video URI was returned.'')) req st
             else
               (let st1 = st\<lparr>progressLog :=
                                report onProgress ''Downloading video...'' (progressLog st)\<rparr>
                in (case veoDownload env of
                      DownloadThrows e \<Rightarrow> veo_fail (veo_catch e) req st1
                    | DownloadNotOk status \<Rightarrow>
                        veo_fail
                          (veo_catch (JsError (''Failed to download video (HTTP '' @
                                               string_of_nat status @ '')''))) req st1
                    | DownloadBlob objectUrl \<Rightarrow>
                        \<lparr> veoResult = Inr objectUrl, veoRequest = req,
                          veoPollCount = pollCount st1, veoWaitedMs = waitedMs st1,
                          veoLog = report onProgress ''Video ready!'' (progressLog st1) \<rparr>))))"

text \<open>
  \<open>VeoService.generateVideo\<close>. \<open>key\<close> is the service's stored API key (set by \<open>init\<close>
  together with the client).
\<close>

definition generateVideo ::
  "string option \<Rightarrow> VeoEnv \<Rightarrow> string option \<Rightarrow> string \<Rightarrow> bool \<Rightarrow> string \<Rightarrow> VeoRun" where
  "generateVideo key env imageBytes p onProgress mimeType =
     (let st0 = \<lparr> currentOperation = \<lparr>opDone = False, opName = [], opVideo = None\<rparr>,
                  pollCount = 0, waitedMs = 0, progressLog = [] \<rparr>
      in if \<not> truthy_opt key then
           veo_fail (JsError ''VEO service not initialized. Please provide an API key.'')
             None st0
         else
           (let req = Some \<lparr> veoPrompt = p, veoImageBytes = imageBytes,
                             veoMimeType = mimeType \<rparr>;
                st1 = st0\<lparr>progressLog := report onProgress ''Starting video generation...'' []\<rparr>
            in (case veoStart env of
                  StartThrows e \<Rightarrow> veo_fail (veo_catch e) req st1
                | StartNotOk errorText \<Rightarrow>
                    veo_fail (veo_catch (JsError (''ApiError: '' @ errorText))) req st1
                | StartJson operation \<Rightarrow>
                    (case poll_loop (veoPolls env) onProgress
                            (st1\<lparr>currentOperation := operation\<rparr>) of
                       (Some e, st2) \<Rightarrow> veo_fail (veo_catch e) req st2
                     | (None, st2) \<Rightarrow> veo_finish env onProgress req st2))))"

text \<open>\<open>VeoService.generateVideoSimple\<close>: a data URL or an HTTP URL as the image.\<close>

definition generateVideoSimple ::
  "string option \<Rightarrow> VeoEnv \<Rightarrow> string \<Rightarrow> string \<Rightarrow> VeoRun" where
  "generateVideoSimple key env imageDataUrl p =
     (let st0 = \<lparr> currentOperation = \<lparr>opDone = False, opName = [], opVideo = None\<rparr>,
                  pollCount = 0, waitedMs = 0, progressLog = [] \<rparr>
      in if startsWith imageDataUrl ''data:'' then
           (let mimeType = or_else (match_data_base64 imageDataUrl) ''image/jpeg'';
                base64 = split_second imageDataUrl
            in if \<not> truthy_opt base64 then
                 veo_fail (JsError ''Invalid data URL: missing base64 data'') None st0
               else generateVideo key env base64 p False mimeType)
         else if startsWith imageDataUrl ''http'' then
           (case veoImageFetch env of
              ImageFetchThrows e \<Rightarrow>
                veo_fail (JsError ''Failed to process image URL for video generation'') None st0
            | ImageFetchNotOk status \<Rightarrow>
                veo_fail (JsError ''Failed to process image URL for video generation'') None st0
            | ImageFetchBlob blobType reader \<Rightarrow>
                (case reader of
                   Inl e \<Rightarrow> veo_fail e None st0
                 | Inr dataUrl \<Rightarrow>
                     generateVideo key env (split_second dataUrl) p False
                       (or_else (Some blobType) ''image/jpeg'')))
         else
           veo_fail (JsError ''Invalid image format: must be either a data URL or HTTP URL'')
             None st0)"


section \<open>The generation step\<close>

text \<open>
  The simulated progress of the step: what one callback of the 100 ms interval computes
  from the elapsed milliseconds, and the value it hands to \<open>setProgress\<close>.
\<close>

definition newProgress :: "real \<Rightarrow> real" where
  "newProgress elapsed =
     (let startProgress = 10;
          endProgress = 90;
          duration = 50000;
          percentComplete = min (elapsed / duration) 1;
          eased = (if percentComplete < 0.5 then 2 * percentComplete * percentComplete
                   else 1 - (- 2 * percentComplete + 2) ^ 2 / 2)
      in startProgress + (endProgress - startProgress) * eased)"

definition gentle_tick :: "real \<Rightarrow> real" where
  "gentle_tick elapsed = min 90 (newProgress elapsed)"

text \<open>
  The callbacks that fire while the step awaits its providers, given by their elapsed
  times; the interval is cleared by the callback that reaches 90.
\<close>

fun run_ticks :: "real list \<Rightarrow> real \<Rightarrow> real" where
  "run_ticks [] shown = shown"
| "run_ticks (elapsed # rest) shown =
     (if newProgress elapsed \<ge> 90 then gentle_tick elapsed
      else run_ticks rest (gentle_tick elapsed))"

record GenerateLocal =
  isGenerating :: bool
  generateError :: "string option"
  shownProgress :: real
  statusMessage :: string
  timerRef :: bool
  completeTimer :: "(nat \<times> ProcessingStep) option"

text \<open>
  What the step meets outside itself. Local storage is read when the video phase picks
  its provider and again when a failure is handled, which may be minutes later; the
  environment gives the contents at both moments. Each provider call has its own answer.
\<close>

record GenerateEnv =
  storageAtTry :: storage
  storageAtCatch :: storage
  genPrompt :: PromptEnv
  genVeo :: VeoEnv
  replicateDirect :: replicate_response
  replicateFallback :: replicate_response
  genTicks :: "real list"

datatype gen_event =
    PromptCall string "string option"
  | ReplicateCall string "string option" nat string string
  | ReplicateSent ReplicateRequest
  | VeoInit string
  | VeoCall string string

definition fallbackPrompt :: string where
  "fallbackPrompt = ''A gentle, cinematic motion around this cherished memory.''"

definition sent :: "ReplicateRequest option \<Rightarrow> gen_event list" where
  "sent r = (case r of None \<Rightarrow> [] | Some req \<Rightarrow> [ReplicateSent req])"

text \<open>The prompt phase: the prompt to use, the status line, and the call made.\<close>

definition prompt_phase ::
  "GenerateEnv \<Rightarrow> string \<Rightarrow> string \<Rightarrow> string \<Rightarrow> GenerateLocal \<Rightarrow>
   string \<times> GenerateLocal \<times> gen_event list" where
  "prompt_phase env img stored note l =
     (if \<not> truthy stored \<or> length (trim stored) = 0 then
        (case generateVideoPromptFromImage (genPrompt env) img of
           Inr generated \<Rightarrow>
             (generated, l\<lparr>statusMessage := ''Preparing video generation...''\<rparr>,
              [PromptCall img (if truthy note then Some note else None)])
         | Inl promptError \<Rightarrow>
             (fallbackPrompt, l, [PromptCall img (if truthy note then Some note else None)]))
      else (stored, l, []))"

definition video_success ::
  "string \<Rightarrow> GenerateLocal \<times> MemoryState \<Rightarrow> GenerateLocal \<times> MemoryState" where
  "video_success url w =
     (case w of (l, s) \<Rightarrow>
        (l\<lparr> timerRef := False, shownProgress := 100,
            statusMessage := ''Your memory is ready!'',
            completeTimer := Some (1200, Complete) \<rparr>,
         setVideoUrl url s))"

definition thrown_message :: "js_error \<Rightarrow> string" where
  "thrown_message e = (case e of JsError m \<Rightarrow> m | NonError v \<Rightarrow> v)"

text \<open>The \<open>catch\<close> block of the step.\<close>

definition video_catch ::
  "GenerateEnv \<Rightarrow> string \<Rightarrow> string \<Rightarrow> js_error \<Rightarrow> GenerateLocal \<times> MemoryState \<Rightarrow>
   (GenerateLocal \<times> MemoryState) \<times> gen_event list" where
  "video_catch env img p e w =
     (case w of (l, s) \<Rightarrow>
        (let message = thrown_message e;
             replicateToken = storageAtCatch env ''REPLICATE_API_TOKEN''
         in if truthy_opt replicateToken \<and> \<not> str_includes message ''Replicate'' then
              (case generateVideoWithReplicate (storageAtCatch env) (replicateFallback env)
                      p (Some img) 5 ''480p'' ''16:9'' of
                 (Inr fallbackUrl, req) \<Rightarrow>
                   (video_success fallbackUrl (l, s),
                    ReplicateCall p (Some img) 5 ''480p'' ''16:9'' # sent req)
               | (Inl repErr, req) \<Rightarrow>
                   ((l\<lparr> timerRef := False,
                        generateError := Some (error_message repErr ''Video generation failed''),
                        isGenerating := False \<rparr>, s),
                    ReplicateCall p (Some img) 5 ''480p'' ''16:9'' # sent req))
            else
              ((l\<lparr> timerRef := False,
                   generateError :=
                     Some (if truthy message then message else ''Video generation failed''),
                   isGenerating := False \<rparr>, s), [])))"

text \<open>The video phase: the provider is picked by the token in local storage.\<close>

definition video_phase ::
  "GenerateEnv \<Rightarrow> string \<Rightarrow> string \<Rightarrow> GenerateLocal \<times> MemoryState \<Rightarrow>
   (GenerateLocal \<times> MemoryState) \<times> gen_event list" where
  "video_phase env img p w =
     (case w of (l, s) \<Rightarrow>
        (if truthy_opt (storageAtTry env ''REPLICATE_API_TOKEN'') then
           (let l1 = l\<lparr>statusMessage := ''Generating video...''\<rparr>
            in (case generateVideoWithReplicate (storageAtTry env) (replicateDirect env)
                       p (Some img) 5 ''480p'' ''16:9'' of
                  (Inr url, req) \<Rightarrow>
                    (video_success url (l1, s),
                     ReplicateCall p (Some img) 5 ''480p'' ''16:9'' # sent req)
                | (Inl e, req) \<Rightarrow>
                    (case video_catch env img p e (l1, s) of (w1, evs) \<Rightarrow>
                       (w1, ReplicateCall p (Some img) 5 ''480p'' ''16:9'' # sent req @ evs))))
         else
           (let veoApiKey =
                  (if truthy_opt (storageAtTry env ''VEO_API_KEY'')
                   then storageAtTry env ''VEO_API_KEY''
                   else storageAtTry env ''GEMINI_API_KEY'')
            in (case veoApiKey of
                  None \<Rightarrow>
                    video_catch env img p
                      (JsError ''API key not found. Please set your API key.'') (l, s)
                | Some k \<Rightarrow>
                    if \<not> truthy k then
                      video_catch env img p
                        (JsError ''API key not found. Please set your API key.'') (l, s)
                    else
                      (let l1 = l\<lparr>statusMessage := ''Generating video...''\<rparr>
                       in (case veoResult (generateVideoSimple (Some k) (genVeo env) img p) of
                             Inr videoResult \<Rightarrow>
                               (video_success videoResult (l1, s), [VeoInit k, VeoCall img p])
                           | Inl e \<Rightarrow>
                               (case video_catch env img p e (l1, s) of (w1, evs) \<Rightarrow>
                                  (w1, VeoInit k # VeoCall img p # evs))))))))"

definition startGeneration ::
  "GenerateEnv \<Rightarrow> GenerateLocal \<times> MemoryState \<Rightarrow>
   (GenerateLocal \<times> MemoryState) \<times> gen_event list" where
  "startGeneration env w =
     (case w of (l, s) \<Rightarrow>
        (case enhancedImageUrl s of
           None \<Rightarrow>
             ((l\<lparr>generateError := Some ''Missing required image for video generation''\<rparr>, s), [])
         | Some img \<Rightarrow>
             if \<not> truthy img then
               ((l\<lparr>generateError := Some ''Missing required image for video generation''\<rparr>, s),
                [])
             else
               (let l1 = l\<lparr> isGenerating := True, generateError := None,
                            shownProgress := 10,
                            statusMessage := ''Analyzing image for motion...'',
                            timerRef := True \<rparr>
                in (case prompt_phase env img (motionPrompt s) (userNote s) l1 of
                      (p, l2, evs1) \<Rightarrow>
                        (case video_phase env img p
                                (l2\<lparr>shownProgress := run_ticks (genTicks env) 10\<rparr>, s) of
                           (w1, evs2) \<Rightarrow> (w1, evs1 @ evs2))))))"


section \<open>Runs of the store and of the steps\<close>

text \<open>
  Every action of the store, and the state after a sequence of them, starting from the
  initial state. The two actions that also revoke URLs contribute their new store state.
\<close>

datatype store_action =
    SetCurrentStep ProcessingStep
  | SetOriginalImage File string
  | SetEnhancedImage string "string option"
  | SetVideoUrl string
  | SetUserNote string
  | SetMotionPrompt string
  | SetProcessing bool
  | SetProgress js_number
  | SetError "string option"
  | SetApiKey string
  | ClearApiKey
  | StartProcessing real
  | CompleteProcessing
  | SetEstimatedTime js_number
  | ResetWorkflow
  | ClearMedia

fun dispatch :: "store_action \<Rightarrow> MemoryState \<Rightarrow> MemoryState" where
  "dispatch (SetCurrentStep step) s = setCurrentStep step s"
| "dispatch (SetOriginalImage file url) s = setOriginalImage file url s"
| "dispatch (SetEnhancedImage url cap) s = setEnhancedImage url cap s"
| "dispatch (SetVideoUrl url) s = setVideoUrl url s"
| "dispatch (SetUserNote note) s = setUserNote note s"
| "dispatch (SetMotionPrompt p) s = setMotionPrompt p s"
| "dispatch (SetProcessing b) s = setProcessing b s"
| "dispatch (SetProgress p) s = setProgress p s"
| "dispatch (SetError e) s = setError e s"
| "dispatch (SetApiKey k) s = setApiKey k s"
| "dispatch ClearApiKey s = clearApiKey s"
| "dispatch (StartProcessing now) s = startProcessing now s"
| "dispatch CompleteProcessing s = completeProcessing s"
| "dispatch (SetEstimatedTime seconds) s = setEstimatedTime seconds s"
| "dispatch ResetWorkflow s = fst (resetWorkflow (s, []))"
| "dispatch ClearMedia s = fst (clearMedia (s, []))"

definition run_store :: "store_action list \<Rightarrow> MemoryState" where
  "run_store acts = foldl (\<lambda>s a. dispatch a s) initialState acts"

text \<open>Reading the record of calls of a generation step.\<close>

definition is_veo_event :: "gen_event \<Rightarrow> bool" where
  "is_veo_event ev = (case ev of VeoInit _ \<Rightarrow> True | VeoCall _ _ \<Rightarrow> True | _ \<Rightarrow> False)"

definition is_prompt_call :: "gen_event \<Rightarrow> bool" where
  "is_prompt_call ev = (case ev of PromptCall _ _ \<Rightarrow> True | _ \<Rightarrow> False)"

definition fixed_parameters :: "gen_event \<Rightarrow> bool" where
  "fixed_parameters ev =
     (case ev of
        ReplicateCall _ _ duration resolution aspectRatio \<Rightarrow>
          duration = 5 \<and> resolution = ''480p'' \<and> aspectRatio = ''16:9''
      | ReplicateSent req \<Rightarrow>
          inputDuration (requestInput req) = 5 \<and>
          inputResolution (requestInput req) = ''480p'' \<and>
          inputAspectRatio (requestInput req) = ''16:9''
      | _ \<Rightarrow> True)"

text \<open>A poll answer that does not report the operation done (and is an answer at all).\<close>

definition not_done :: "poll_response \<Rightarrow> bool" where
  "not_done r =
     (case r of PollThrows _ \<Rightarrow> False | PollNotOk \<Rightarrow> True | PollJson operation \<Rightarrow> \<not> opDone operation)"


section \<open>Example runs\<close>

text \<open>Concrete files, states and environments on which the theorems below are exercised.\<close>

definition examplePhoto :: string where
  "examplePhoto = ''data:image/jpeg;base64,AAAA''"

definition exampleFile :: File where
  "exampleFile = \<lparr>fname = ''beach.jpg'', ftype = ''image/jpeg'', fsize = 2048\<rparr>"

definition uploadedState :: MemoryState where
  "uploadedState = setOriginalImage exampleFile examplePhoto initialState"

definition enhancedState :: MemoryState where
  "enhancedState = setEnhancedImage examplePhoto (Some ''Enhanced with AI'') uploadedState"

definition keyOnly :: storage where
  "keyOnly k = (if k = ''GEMINI_API_KEY'' then Some ''AIza-key'' else None)"

definition keyAndToken :: storage where
  "keyAndToken k = (if k = ''REPLICATE_API_TOKEN'' then Some ''r8_token'' else keyOnly k)"

definition textlessAnswer :: gen_response where
  "textlessAnswer = [Some [\<lparr>partText = None, inlineData = None\<rparr>]]"

definition idleEnhance :: EnhanceLocal where
  "idleEnhance =
     \<lparr> isEnhancing = False, enhanceError = None, enhanceProgress = 0, imageLoaded = False,
       hasEnhanced = False, autoAdvanceTimer = None \<rparr>"

definition replicateDown :: EnhanceEnv where
  "replicateDown =
     \<lparr> enhStorage = keyAndToken, enhReplicate = RepEnhanceThrows (JsError ''Failed to fetch''),
       enhGeminiReady = True, enhGemini = Inr textlessAnswer \<rparr>"

definition withoutToken :: EnhanceEnv where
  "withoutToken =
     \<lparr> enhStorage = keyOnly, enhReplicate = RepEnhanceThrows (JsError ''Failed to fetch''),
       enhGeminiReady = True, enhGemini = Inr textlessAnswer \<rparr>"

definition pendingOperation :: Operation where
  "pendingOperation = \<lparr>opDone = False, opName = ''operations/42'', opVideo = None\<rparr>"

definition stalledVeo :: VeoEnv where
  "stalledVeo =
     \<lparr> veoStart = StartJson pendingOperation,
       veoPolls = (\<lambda>k. if even k then PollJson pendingOperation else PollNotOk),
       veoDownload = DownloadNotOk 404,
       veoImageFetch = ImageFetchNotOk 404 \<rparr>"

definition failingPrompt :: PromptEnv where
  "failingPrompt =
     \<lparr> promptReady = True, promptImageFetch = ImageFetchNotOk 404,
       promptContent = Inl (JsError ''Failed to fetch''),
       promptStringify = (\<lambda>m. m) \<rparr>"

definition idleGenerate :: GenerateLocal where
  "idleGenerate =
     \<lparr> isGenerating = False, generateError = None, shownProgress = 0,
       statusMessage = ''Initializing...'', timerRef = False, completeTimer = None \<rparr>"

definition replicateFirst :: GenerateEnv where
  "replicateFirst =
     \<lparr> storageAtTry = keyAndToken, storageAtCatch = keyAndToken,
       genPrompt = failingPrompt, genVeo = stalledVeo,
       replicateDirect = ReplicateJson (Some ''https://replicate.delivery/clip.mp4''),
       replicateFallback = ReplicateThrows (JsError ''Failed to fetch''),
       genTicks = [1000, 30000] \<rparr>"

definition lateToken :: GenerateEnv where
  "lateToken =
     \<lparr> storageAtTry = keyOnly, storageAtCatch = keyAndToken,
       genPrompt = failingPrompt, genVeo = stalledVeo,
       replicateDirect = ReplicateThrows (JsError ''Failed to fetch''),
       replicateFallback = ReplicateJson (Some ''https://replicate.delivery/clip.mp4''),
       genTicks = [1000, 30000] \<rparr>"


section \<open>Properties of the store\<close>

text \<open>
  C6 as stated fails: \<open>canProceedToStep\<close> lets the \<open>generate\<close> step be entered in a state
  that holds a motion prompt and no image of any kind.
\<close>

theorem canProceedToStep_generate_without_image:
  "canProceedToStep Generate (setMotionPrompt ''pan left'' initialState) \<and>
   originalImage (setMotionPrompt ''pan left'' initialState) = None \<and>
   originalImageUrl (setMotionPrompt ''pan left'' initialState) = None \<and>
   originalImageDataUrl (setMotionPrompt ''pan left'' initialState) = None \<and>
   enhancedImageUrl (setMotionPrompt ''pan left'' initialState) = None"
  by (simp add: canProceedToStep_def setMotionPrompt_def initialState_def truthy_def)

text \<open>
  C6, amended. \<open>canProceedToStep\<close> returns true for a step exactly when its required
  artifact exists: \<open>upload\<close> is always enterable, \<open>enhance\<close> requires a stored original
  image, \<open>prompt\<close> a non-empty enhanced image URL, \<open>generate\<close> a non-empty motion prompt,
  and \<open>complete\<close> a non-empty video handle.
\<close>

theorem canProceedToStep_requirements:
  "canProceedToStep Upload s \<and>
   (canProceedToStep Enhance s \<longleftrightarrow> originalImage s \<noteq> None) \<and>
   (canProceedToStep Prompt s \<longleftrightarrow> (\<exists>u. enhancedImageUrl s = Some u \<and> u \<noteq> [])) \<and>
   (canProceedToStep Generate s \<longleftrightarrow> motionPrompt s \<noteq> []) \<and>
   (canProceedToStep Complete s \<longleftrightarrow> (\<exists>u. videoUrl s = Some u \<and> u \<noteq> []))"
  by (auto simp: canProceedToStep_def truthy_def truthy_opt_def split: option.splits)

theorem canProceedToStep_requirements_witness:
  "canProceedToStep Upload (setEnhancedImage ''data:image/png;base64,AAAA'' None initialState) \<and>
   \<not> canProceedToStep Enhance (setEnhancedImage ''data:image/png;base64,AAAA'' None initialState) \<and>
   canProceedToStep Prompt (setEnhancedImage ''data:image/png;base64,AAAA'' None initialState) \<and>
   \<not> canProceedToStep Generate (setEnhancedImage ''data:image/png;base64,AAAA'' None initialState) \<and>
   \<not> canProceedToStep Complete (setEnhancedImage ''data:image/png;base64,AAAA'' None initialState)"
  using canProceedToStep_requirements
    [of "setEnhancedImage ''data:image/png;base64,AAAA'' None initialState"]
  by (simp add: setEnhancedImage_def initialState_def)


text \<open>
  C10. In every store state, \<open>setOriginalImage file url\<close> is one state update that stores the
  new image (file, display URL and data URL) and clears every downstream artifact: the
  enhanced image URL, its caption and the video URL become null, the motion prompt and the
  user note become empty, the error becomes null and the current step becomes \<open>enhance\<close>.
  The remaining fields keep their values.
\<close>

theorem setOriginalImage_clears_downstream:
  "originalImage (setOriginalImage file url s) = Some file \<and>
   originalImageUrl (setOriginalImage file url s) = Some url \<and>
   originalImageDataUrl (setOriginalImage file url s) = Some url \<and>
   enhancedImageUrl (setOriginalImage file url s) = None \<and>
   enhancedImageCaption (setOriginalImage file url s) = None \<and>
   videoUrl (setOriginalImage file url s) = None \<and>
   motionPrompt (setOriginalImage file url s) = [] \<and>
   userNote (setOriginalImage file url s) = [] \<and>
   error (setOriginalImage file url s) = None \<and>
   currentStep (setOriginalImage file url s) = Enhance \<and>
   isProcessing (setOriginalImage file url s) = isProcessing s \<and>
   progress (setOriginalImage file url s) = progress s \<and>
   apiKey (setOriginalImage file url s) = apiKey s \<and>
   processingStartTime (setOriginalImage file url s) = processingStartTime s \<and>
   estimatedTimeRemaining (setOriginalImage file url s) = estimatedTimeRemaining s"
  by (simp add: setOriginalImage_def)

text \<open>
  C8. In every store state, \<open>resetWorkflow\<close> returns the workflow to the initial state with
  current step \<open>upload\<close>: all media references null, user note and motion prompt empty,
  progress 0, error null, while the API key keeps its prior value; and a \<open>blob:\<close> URL held
  in \<open>originalImageUrl\<close> or \<open>videoUrl\<close> is revoked (nothing else is, and earlier
  revocations stay).
\<close>

theorem resetWorkflow_keeps_credentials:
  "fst (resetWorkflow (s, revoked)) = initialState\<lparr>apiKey := apiKey s\<rparr> \<and>
   currentStep (fst (resetWorkflow (s, revoked))) = Upload \<and>
   originalImage (fst (resetWorkflow (s, revoked))) = None \<and>
   originalImageUrl (fst (resetWorkflow (s, revoked))) = None \<and>
   originalImageDataUrl (fst (resetWorkflow (s, revoked))) = None \<and>
   enhancedImageUrl (fst (resetWorkflow (s, revoked))) = None \<and>
   enhancedImageCaption (fst (resetWorkflow (s, revoked))) = None \<and>
   videoUrl (fst (resetWorkflow (s, revoked))) = None \<and>
   userNote (fst (resetWorkflow (s, revoked))) = [] \<and>
   motionPrompt (fst (resetWorkflow (s, revoked))) = [] \<and>
   progress (fst (resetWorkflow (s, revoked))) = Num 0 \<and>
   error (fst (resetWorkflow (s, revoked))) = None \<and>
   apiKey (fst (resetWorkflow (s, revoked))) = apiKey s \<and>
   (\<forall>u. originalImageUrl s = Some u \<and> startsWith u ''blob:''
        \<longrightarrow> u \<in> set (snd (resetWorkflow (s, revoked)))) \<and>
   (\<forall>u. videoUrl s = Some u \<and> startsWith u ''blob:''
        \<longrightarrow> u \<in> set (snd (resetWorkflow (s, revoked)))) \<and>
   set revoked \<subseteq> set (snd (resetWorkflow (s, revoked))) \<and>
   set (snd (resetWorkflow (s, revoked))) \<subseteq>
     set revoked \<union> {u. is_blob (Some u) \<and> (originalImageUrl s = Some u \<or> videoUrl s = Some u)}"
  by (auto simp: resetWorkflow_def revokeObjectURL_def initialState_def is_blob_def
           split: option.splits if_splits)

theorem resetWorkflow_keeps_credentials_witness:
  "fst (resetWorkflow
      (initialState\<lparr> currentStep := Complete, originalImageUrl := Some ''blob:photo'',
          videoUrl := Some ''blob:clip'', userNote := ''beach'', progress := Num 100,
          apiKey := Some ''AIza-key'' \<rparr>, [])) = initialState\<lparr>apiKey := Some ''AIza-key''\<rparr> \<and>
   startsWith ''blob:photo'' ''blob:'' \<and> startsWith ''blob:clip'' ''blob:'' \<and>
   ''blob:photo'' \<in> set (snd (resetWorkflow
      (initialState\<lparr> currentStep := Complete, originalImageUrl := Some ''blob:photo'',
          videoUrl := Some ''blob:clip'', userNote := ''beach'', progress := Num 100,
          apiKey := Some ''AIza-key'' \<rparr>, []))) \<and>
   ''blob:clip'' \<in> set (snd (resetWorkflow
      (initialState\<lparr> currentStep := Complete, originalImageUrl := Some ''blob:photo'',
          videoUrl := Some ''blob:clip'', userNote := ''beach'', progress := Num 100,
          apiKey := Some ''AIza-key'' \<rparr>, [])))"
  using resetWorkflow_keeps_credentials
    [of "initialState\<lparr> currentStep := Complete, originalImageUrl := Some ''blob:photo'',
          videoUrl := Some ''blob:clip'', userNote := ''beach'', progress := Num 100,
          apiKey := Some ''AIza-key'' \<rparr>" "[]"]
  by (simp add: startsWith_def initialState_def)

section \<open>Properties of the upload step\<close>

text \<open>
  C5. A file whose MIME type is not one of image/jpeg, image/png, image/webp is invalid
  with the message about the unsupported type; a file of an allowed type larger than
  10 * 1024 * 1024 bytes is invalid with the message about the size; in both cases the
  upload handler leaves the store as it was and shows the validation message. Every file
  of an allowed type with at most 10 * 1024 * 1024 bytes passes validation.
\<close>

theorem upload_validation:
  "(ftype file \<notin> {''image/jpeg'', ''image/png'', ''image/webp''} \<longrightarrow>
      validateImageFile file =
        \<lparr> isValid = False,
          validationError =
            Some ''Unsupported file type. Please use JPEG, PNG, or WebP images.'' \<rparr>) \<and>
   (ftype file \<in> {''image/jpeg'', ''image/png'', ''image/webp''} \<and>
    fsize file > 10 * 1024 * 1024 \<longrightarrow>
      validateImageFile file =
        \<lparr> isValid = False,
          validationError = Some ''File is too large. Please use an image under 10MB.'' \<rparr>) \<and>
   (ftype file \<notin> {''image/jpeg'', ''image/png'', ''image/webp''} \<or>
    fsize file > 10 * 1024 * 1024 \<longrightarrow>
      \<not> isValid (validateImageFile file) \<and>
      snd (handleFile compressed reader file (l, s)) = s \<and>
      uploadError (fst (handleFile compressed reader file (l, s))) =
        validationError (validateImageFile file)) \<and>
   (ftype file \<in> {''image/jpeg'', ''image/png'', ''image/webp''} \<and>
    fsize file \<le> 10 * 1024 * 1024 \<longrightarrow>
      isValid (validateImageFile file))"
  by (simp add: validateImageFile_def handleFile_def Let_def or_else_def truthy_def)

theorem upload_validation_witness:
  "''image/gif'' \<notin> {''image/jpeg'', ''image/png'', ''image/webp''} \<and>
   snd (handleFile (Inr \<lparr>fname = ''a.gif'', ftype = ''image/gif'', fsize = 2048\<rparr>)
          (\<lambda>f. Inr ''data:image/jpeg;base64,AAAA'')
          \<lparr>fname = ''a.gif'', ftype = ''image/gif'', fsize = 2048\<rparr>
          (\<lparr>isDragOver = False, uploadProcessing = False, uploadError = None\<rparr>, initialState))
     = initialState \<and>
   (10 * 1024 * 1024 :: nat) < 10485761 \<and>
   validateImageFile \<lparr>fname = ''b.png'', ftype = ''image/png'', fsize = 10485761\<rparr> =
     \<lparr> isValid = False,
       validationError = Some ''File is too large. Please use an image under 10MB.'' \<rparr> \<and>
   isValid (validateImageFile \<lparr>fname = ''c.webp'', ftype = ''image/webp'', fsize = 10485760\<rparr>)"
  using upload_validation
    [of "\<lparr>fname = ''a.gif'', ftype = ''image/gif'', fsize = 2048\<rparr>"
        "Inr \<lparr>fname = ''a.gif'', ftype = ''image/gif'', fsize = 2048\<rparr>"
        "\<lambda>f. Inr ''data:image/jpeg;base64,AAAA''"
        "\<lparr>isDragOver = False, uploadProcessing = False, uploadError = None\<rparr>"
        initialState]
    upload_validation
    [of "\<lparr>fname = ''b.png'', ftype = ''image/png'', fsize = 10485761\<rparr>"]
    upload_validation
    [of "\<lparr>fname = ''c.webp'', ftype = ''image/webp'', fsize = 10485760\<rparr>"]
  by simp

section \<open>Properties of the enhancement providers and step\<close>

lemma photo_parts:
  "split_second examplePhoto = Some ''AAAA''"
  "match_data_mime examplePhoto = Some ''image/jpeg''"
  "match_data_base64 examplePhoto = Some ''image/jpeg''"
  "truthy examplePhoto" "startsWith examplePhoto ''data:''"
  by (simp_all add: examplePhoto_def split_second_def startsWith_def truthy_def
        match_data_base64_def lower_char_def)

lemma collect_parts_no_image:
  "\<forall>part \<in> set ps. \<forall>i. inlineData part = Some i \<longrightarrow> inlineBytes i = [] \<or> inlineMimeType i = [] \<Longrightarrow>
   fst (collect_parts ps imgs cap) = imgs"
  by (induction ps arbitrary: imgs cap) (auto simp: truthy_def Let_def split: option.splits)

lemma collect_parts_no_text:
  "\<forall>part \<in> set ps. partText part = None \<or> partText part = Some [] \<Longrightarrow>
   snd (collect_parts ps imgs cap) = cap"
  by (induction ps arbitrary: imgs cap) (auto simp: truthy_def Let_def split: option.splits)

lemma trim_generic: "trim ''Image processed successfully'' = ''Image processed successfully''"
  by (simp add: trim_def is_space_def)

text \<open>
  C4. Whenever the initialised primary provider answers \<open>enhanceImage\<close> with a response
  that has no inline image part (no part carries inline data with both bytes and a MIME
  type), the call returns, and its single image is the data URL built from the caller's MIME
  type and base64 text; when the response carried no text either, the caption is
  \<open>Image processed successfully\<close>.
\<close>

theorem gemini_soft_success:
  assumes "\<forall>part \<in> set (first_parts r). \<forall>i. inlineData part = Some i \<longrightarrow>
             inlineBytes i = [] \<or> inlineMimeType i = []"
  shows "\<exists>cap. geminiEnhanceImage True (Inr r) base64Image mimeType =
            Inr \<lparr> images = [''data:'' @ mimeType @ '';base64,'' @ base64Image], caption = cap \<rparr> \<and>
          ((\<forall>part \<in> set (first_parts r). partText part = None \<or> partText part = Some [])
             \<longrightarrow> cap = ''Image processed successfully'')"
proof -
  obtain imgs cap where c: "collect_parts (first_parts r) [] [] = (imgs, cap)"
    by (cases "collect_parts (first_parts r) [] []")
  have imgs: "imgs = []"
    using collect_parts_no_image [OF assms, of "[]" "[]"] c by simp
  have cap: "(\<forall>part \<in> set (first_parts r). partText part = None \<or> partText part = Some [])
      \<Longrightarrow> cap = []"
    using collect_parts_no_text [of "first_parts r" "[]" "[]"] c by simp
  show ?thesis
    using c imgs cap by (auto simp: geminiEnhanceImage_def truthy_def trim_generic)
qed

theorem gemini_soft_success_witness:
  "list_all (\<lambda>part. inlineData part = None) (first_parts textlessAnswer) \<and>
   list_all (\<lambda>part. partText part = None) (first_parts textlessAnswer) \<and>
   geminiEnhanceImage True (Inr textlessAnswer) ''AAAA'' ''image/jpeg'' =
     Inr \<lparr> images = [''data:image/jpeg;base64,AAAA''],
           caption = ''Image processed successfully'' \<rparr>"
  using gemini_soft_success [where r = textlessAnswer and mimeType = "''image/jpeg''" and base64Image = "''AAAA''"]
  by (simp add: textlessAnswer_def first_parts_def)

text \<open>
  C3. In a run of the enhancement step (an original image is stored): when a Replicate
  token is in local storage and the Replicate enhancement call throws, the Gemini
  enhancement call is made next, and the step fails only with Gemini's error, succeeding
  with Gemini's image otherwise; when no token is stored, the Gemini call is the only call.
\<close>

theorem enhancement_falls_back_to_gemini:
  assumes "originalImageDataUrl s = Some img" and "truthy img"
  shows "(enhStorage env ''REPLICATE_API_TOKEN'' = Some tok \<and> truthy tok \<and>
          replicateEnhanceImage (Some tok) (enhReplicate env) = Inl e \<longrightarrow>
            snd (startEnhancement env (l, s)) =
              [ReplicateEnhance tok img,
               GeminiEnhance (js_string (split_second img))
                 (or_else (match_data_mime img) ''image/jpeg'')] \<and>
            (\<forall>e2. geminiEnhanceImage (enhGeminiReady env) (enhGemini env)
                    (js_string (split_second img))
                    (or_else (match_data_mime img) ''image/jpeg'') = Inl e2 \<longrightarrow>
                  enhanceError (fst (fst (startEnhancement env (l, s)))) =
                    Some (error_message e2 ''Enhancement failed'')) \<and>
            (\<forall>u us cap. geminiEnhanceImage (enhGeminiReady env) (enhGemini env)
                    (js_string (split_second img))
                    (or_else (match_data_mime img) ''image/jpeg'') =
                      Inr \<lparr>images = u # us, caption = cap\<rparr> \<and> truthy u \<longrightarrow>
                  enhanceError (fst (fst (startEnhancement env (l, s)))) = None \<and>
                  snd (fst (startEnhancement env (l, s))) = setEnhancedImage u (Some cap) s)) \<and>
         (\<not> truthy_opt (enhStorage env ''REPLICATE_API_TOKEN'') \<longrightarrow>
            snd (startEnhancement env (l, s)) =
              [GeminiEnhance (js_string (split_second img))
                 (or_else (match_data_mime img) ''image/jpeg'')])"
  using assms
  by (auto simp: startEnhancement_def enhance_providers_def gemini_fallback_def Let_def
        truthy_opt_def
      split: option.splits sum.splits prod.splits if_splits list.splits)

theorem enhancement_falls_back_to_gemini_witness:
  "originalImageDataUrl uploadedState = Some examplePhoto \<and> truthy examplePhoto \<and>
   enhStorage replicateDown ''REPLICATE_API_TOKEN'' = Some ''r8_token'' \<and> truthy ''r8_token'' \<and>
   replicateEnhanceImage (Some ''r8_token'') (enhReplicate replicateDown) =
     Inl (JsError ''Failed to fetch'') \<and>
   snd (startEnhancement replicateDown (idleEnhance, uploadedState)) =
     [ReplicateEnhance ''r8_token'' examplePhoto, GeminiEnhance ''AAAA'' ''image/jpeg''] \<and>
   \<not> truthy_opt (enhStorage withoutToken ''REPLICATE_API_TOKEN'') \<and>
   snd (startEnhancement withoutToken (idleEnhance, uploadedState)) =
     [GeminiEnhance ''AAAA'' ''image/jpeg'']"
proof -
  have token: "truthy ''r8_token''"
    by (simp add: truthy_def)
  show ?thesis
    using enhancement_falls_back_to_gemini [where s = uploadedState and img = examplePhoto and env = replicateDown
                and tok = "''r8_token''" and e = "JsError ''Failed to fetch''"
                and l = idleEnhance]
      enhancement_falls_back_to_gemini [where s = uploadedState and img = examplePhoto and env = withoutToken
                and tok = "''r8_token''" and e = "JsError ''Failed to fetch''"
                and l = idleEnhance]
    by (simp add: photo_parts token uploadedState_def setOriginalImage_def replicateDown_def
          withoutToken_def keyAndToken_def keyOnly_def truthy_opt_def
          replicateEnhanceImage_def js_string_def or_else_def)
qed

section \<open>Properties of the poll loop\<close>

lemma poll_loop_never_done:
  "\<forall>k<maxPolls. not_done (polls k) \<Longrightarrow> \<not> opDone (currentOperation st) \<Longrightarrow>
   pollCount st \<le> maxPolls \<Longrightarrow>
   \<exists>st'. poll_loop polls cb st = (None, st') \<and> \<not> opDone (currentOperation st') \<and>
         pollCount st' = maxPolls \<and>
         waitedMs st' = waitedMs st + 10000 * (maxPolls - pollCount st)"
proof (induction polls cb st rule: poll_loop.induct)
  case (1 polls cb st)
  show ?case
  proof (cases "pollCount st < maxPolls")
    case False
    with "1.prems" show ?thesis
      by (simp add: poll_loop.simps [of polls cb st])
  next
    case True
    then have nd: "not_done (polls (pollCount st))"
      using "1.prems"(1) by blast
    have left: "maxPolls - pollCount st = Suc (maxPolls - Suc (pollCount st))"
      using True by simp
    show ?thesis
    proof (cases "polls (pollCount st)")
      case (PollThrows e)
      with nd show ?thesis by (simp add: not_done_def)
    next
      case PollNotOk
      then show ?thesis
        using "1.IH"(1) [OF _ refl PollNotOk] "1.prems" True
        by (simp add: poll_loop.simps [of polls cb st] Let_def left add.assoc)
    next
      case (PollJson operation)
      then show ?thesis
        using "1.IH"(2) [OF _ refl PollJson] "1.prems" True nd
        by (simp add: poll_loop.simps [of polls cb st] Let_def not_done_def left add.assoc)
    qed
  qed
qed

lemma poll_loop_bounds:
  "poll_loop polls cb st = (r, st') \<Longrightarrow> pollCount st \<le> maxPolls \<Longrightarrow>
   pollCount st' \<le> maxPolls \<and> pollCount st \<le> pollCount st' \<and>
   waitedMs st' \<le> waitedMs st + 10000 * (maxPolls - pollCount st)"
proof (induction polls cb st arbitrary: r st' rule: poll_loop.induct)
  case (1 polls cb st)
  show ?case
  proof (cases "\<not> opDone (currentOperation st) \<and> pollCount st < maxPolls")
    case False
    with "1.prems" show ?thesis
      by (auto simp: poll_loop.simps [of polls cb st])
  next
    case True
    show ?thesis
    proof (cases "polls (pollCount st)")
      case (PollThrows e)
      with True "1.prems" show ?thesis
        by (auto simp: poll_loop.simps [of polls cb st] Let_def)
    next
      case PollNotOk
      with True "1.prems" "1.IH"(1) [OF True refl PollNotOk] show ?thesis
        by (fastforce simp: poll_loop.simps [of polls cb st] Let_def)
    next
      case (PollJson operation)
      with True "1.prems" "1.IH"(2) [OF True refl PollJson] show ?thesis
        by (fastforce simp: poll_loop.simps [of polls cb st] Let_def)
    qed
  qed
qed


lemma timeout_not_mapped:
  "veo_catch (JsError ''Video generation timed out. Please try again.'') =
     JsError ''Video generation timed out. Please try again.''"
  by (simp add: veo_catch_def startsWith_def)

lemma generateVideo_timeout:
  assumes "truthy_opt key" and "veoStart env = StartJson op0" and "\<not> opDone op0"
    and "\<forall>k<maxPolls. not_done (veoPolls env k)"
  shows "veoResult (generateVideo key env bytes p cb mime) =
           Inl (JsError ''Video generation timed out. Please try again.'') \<and>
         veoPollCount (generateVideo key env bytes p cb mime) = 30 \<and>
         veoWaitedMs (generateVideo key env bytes p cb mime) = 30 * 10000"
proof -
  obtain st' where st':
    "poll_loop (veoPolls env) cb
       (\<lparr> currentOperation = \<lparr>opDone = False, opName = [], opVideo = None\<rparr>,
           pollCount = 0, waitedMs = 0, progressLog = [] \<rparr>
        \<lparr>progressLog := report cb ''Starting video generation...'' []\<rparr>
        \<lparr>currentOperation := op0\<rparr>) = (None, st')"
    "\<not> opDone (currentOperation st')" "pollCount st' = maxPolls"
    "waitedMs st' = 10000 * maxPolls"
    using poll_loop_never_done [OF assms(4), of
        "\<lparr> currentOperation = \<lparr>opDone = False, opName = [], opVideo = None\<rparr>,
           pollCount = 0, waitedMs = 0, progressLog = [] \<rparr>
         \<lparr>progressLog := report cb ''Starting video generation...'' []\<rparr>
         \<lparr>currentOperation := op0\<rparr>" cb] assms(3)
    by auto
  show ?thesis
    using assms(1,2) st'
    by (simp add: generateVideo_def Let_def veo_finish_def veo_fail_def timeout_not_mapped
          maxPolls_def)
qed

lemma generateVideo_bounds:
  "veoPollCount (generateVideo key env bytes p cb mime) \<le> 30 \<and>
   veoWaitedMs (generateVideo key env bytes p cb mime) \<le> 30 * 10000"
proof (cases "truthy_opt key")
  case False
  then show ?thesis by (simp add: generateVideo_def Let_def veo_fail_def)
next
  case True
  show ?thesis
  proof (cases "veoStart env")
    case (StartJson op0)
    obtain r st' where run:
      "poll_loop (veoPolls env) cb
         (\<lparr> currentOperation = \<lparr>opDone = False, opName = [], opVideo = None\<rparr>,
             pollCount = 0, waitedMs = 0, progressLog = [] \<rparr>
          \<lparr>progressLog := report cb ''Starting video generation...'' []\<rparr>
          \<lparr>currentOperation := op0\<rparr>) = (r, st')"
      by (metis surj_pair)
    from poll_loop_bounds [OF run] have "pollCount st' \<le> 30 \<and> waitedMs st' \<le> 300000"
      by (simp add: maxPolls_def)
    then show ?thesis
      using True StartJson run
      by (auto simp: generateVideo_def Let_def veo_finish_def veo_fail_def
            split: option.splits download_response.splits)
  qed (use True in \<open>simp_all add: generateVideo_def Let_def veo_fail_def\<close>)
qed

section \<open>Properties of the generation step\<close>

lemma enhanced_photo:
  "enhancedImageUrl enhancedState = Some examplePhoto"
  "originalImageDataUrl enhancedState = Some examplePhoto"
  "motionPrompt enhancedState = []" "userNote enhancedState = []"
  by (simp_all add: enhancedState_def uploadedState_def setEnhancedImage_def
        setOriginalImage_def)

lemma example_storage:
  "truthy_opt (keyAndToken ''REPLICATE_API_TOKEN'')"
  "\<not> truthy_opt (keyOnly ''REPLICATE_API_TOKEN'')"
  "\<not> truthy_opt (keyOnly ''VEO_API_KEY'')"
  "keyOnly ''GEMINI_API_KEY'' = Some ''AIza-key''"
  "truthy ''AIza-key''"
  by (simp_all add: keyAndToken_def keyOnly_def truthy_opt_def truthy_def)

lemma prompt_request_fails:
  "generateVideoPromptFromImage failingPrompt examplePhoto =
     Inl (JsError ''ApiError: Failed to fetch'')"
proof -
  have plain: "\<not> startsWith ''Failed to fetch'' ''ApiError:''"
    by (simp add: startsWith_def)
  have bytes: "truthy ''AAAA''"
    by (simp add: truthy_def)
  show ?thesis
    by (simp add: generateVideoPromptFromImage_def failingPrompt_def prompt_image_def
          prompt_catch_def photo_parts or_else_def plain bytes)
qed

lemma prompt_phase_events:
  "prompt_phase env img stored note l = (p, l2, evs) \<Longrightarrow>
   list_all is_prompt_call evs \<and> \<not> list_ex is_veo_event evs \<and> list_all fixed_parameters evs \<and>
   generateError l2 = generateError l \<and> shownProgress l2 = shownProgress l"
  by (auto simp: prompt_phase_def is_prompt_call_def is_veo_event_def fixed_parameters_def
      split: if_splits sum.splits)

lemma replicate_request:
  "truthy_opt (ls ''REPLICATE_API_TOKEN'') \<Longrightarrow>
   \<exists>res tok. generateVideoWithReplicate ls resp p (Some img) d r a =
      (res, Some \<lparr> requestUrl = ''/replicate/v1/models/bytedance/seedance-1-pro/predictions'',
                   requestAuthorization = ''Bearer '' @ tok, requestPrefer = ''wait'',
                   requestInput = \<lparr> inputPrompt = p, inputDuration = d, inputResolution = r,
                     inputAspectRatio = a, inputImage = (if truthy img then Some img else None),
                     inputFps = 24, inputCameraFixed = False \<rparr> \<rparr>) \<and>
      ls ''REPLICATE_API_TOKEN'' = Some tok"
  by (auto simp: generateVideoWithReplicate_def truthy_opt_def Let_def
      split: option.splits replicate_response.splits)

lemma sent_fixed:
  "generateVideoWithReplicate ls resp p img 5 ''480p'' ''16:9'' = (res, req) \<Longrightarrow>
   list_all fixed_parameters (sent req) \<and> \<not> list_ex is_veo_event (sent req)"
  by (auto simp: generateVideoWithReplicate_def sent_def fixed_parameters_def is_veo_event_def
        Let_def
      split: option.splits replicate_response.splits if_splits)

lemma video_catch_events:
  "video_catch env img p e w = (w1, evs) \<Longrightarrow>
   list_all fixed_parameters evs \<and> \<not> list_ex is_veo_event evs"
  by (cases w)
     (auto simp: video_catch_def Let_def fixed_parameters_def is_veo_event_def
      split: if_splits prod.splits sum.splits dest: sent_fixed)


lemma video_phase_direct:
  assumes "truthy_opt (storageAtTry env ''REPLICATE_API_TOKEN'')"
  shows "\<exists>req rest. snd (video_phase env img p (l, s)) =
            ReplicateCall p (Some img) 5 ''480p'' ''16:9'' # ReplicateSent req # rest \<and>
          requestInput req =
            \<lparr> inputPrompt = p, inputDuration = 5, inputResolution = ''480p'',
              inputAspectRatio = ''16:9'', inputImage = (if truthy img then Some img else None),
              inputFps = 24, inputCameraFixed = False \<rparr> \<and>
          list_all fixed_parameters rest \<and> \<not> list_ex is_veo_event rest"
proof -
  obtain res tok where r:
    "generateVideoWithReplicate (storageAtTry env) (replicateDirect env) p (Some img) 5 ''480p''
       ''16:9'' =
      (res, Some \<lparr> requestUrl = ''/replicate/v1/models/bytedance/seedance-1-pro/predictions'',
                   requestAuthorization = ''Bearer '' @ tok, requestPrefer = ''wait'',
                   requestInput = \<lparr> inputPrompt = p, inputDuration = 5,
                     inputResolution = ''480p'', inputAspectRatio = ''16:9'',
                     inputImage = (if truthy img then Some img else None),
                     inputFps = 24, inputCameraFixed = False \<rparr> \<rparr>)"
    using replicate_request [of "storageAtTry env", OF assms] by blast
  show ?thesis
  proof (cases res)
    case (Inr url)
    then show ?thesis
      using assms r by (simp add: video_phase_def Let_def sent_def)
  next
    case (Inl e)
    obtain w1 evs where c:
      "video_catch env img p e (l\<lparr>statusMessage := ''Generating video...''\<rparr>, s) = (w1, evs)"
      by (metis surj_pair)
    then show ?thesis
      using assms r Inl video_catch_events [OF c]
      by (simp add: video_phase_def Let_def sent_def)
  qed
qed

text \<open>
  C1. In every run of the generation step that finds a (non-empty) Replicate token in local
  storage when the video phase begins, no call of the VEO service is made, every call of
  the Replicate video function and every request sent to it carries duration 5, resolution
  \<open>480p\<close> and aspect ratio \<open>16:9\<close>, and, the enhanced image being there, the first
  call after the prompt phase is the Replicate call for that image, with its request sent.
\<close>

theorem replicate_used_directly:
  assumes "truthy_opt (storageAtTry env ''REPLICATE_API_TOKEN'')"
  shows "\<not> list_ex is_veo_event (snd (startGeneration env (l, s))) \<and>
         list_all fixed_parameters (snd (startGeneration env (l, s))) \<and>
         (enhancedImageUrl s = Some img \<and> truthy img \<longrightarrow>
            (\<exists>pre p req rest.
               snd (startGeneration env (l, s)) =
                 pre @ ReplicateCall p (Some img) 5 ''480p'' ''16:9'' # ReplicateSent req # rest \<and>
               list_all is_prompt_call pre \<and>
               requestInput req =
                 \<lparr> inputPrompt = p, inputDuration = 5, inputResolution = ''480p'',
                   inputAspectRatio = ''16:9'', inputImage = Some img,
                   inputFps = 24, inputCameraFixed = False \<rparr>))"
proof (cases "\<exists>i. enhancedImageUrl s = Some i \<and> truthy i")
  case False
  then show ?thesis
    by (auto simp: startGeneration_def split: option.splits)
next
  case True
  then obtain i where i: "enhancedImageUrl s = Some i" "truthy i" by blast
  obtain p l2 evs1 where pp:
    "prompt_phase env i (motionPrompt s) (userNote s)
       (l\<lparr> isGenerating := True, generateError := None, shownProgress := 10,
           statusMessage := ''Analyzing image for motion...'', timerRef := True \<rparr>) = (p, l2, evs1)"
    by (metis prod_cases3)
  obtain req rest where v:
    "snd (video_phase env i p (l2\<lparr>shownProgress := run_ticks (genTicks env) 10\<rparr>, s)) =
       ReplicateCall p (Some i) 5 ''480p'' ''16:9'' # ReplicateSent req # rest"
    "requestInput req =
       \<lparr> inputPrompt = p, inputDuration = 5, inputResolution = ''480p'',
         inputAspectRatio = ''16:9'', inputImage = Some i,
         inputFps = 24, inputCameraFixed = False \<rparr>"
    "list_all fixed_parameters rest" "\<not> list_ex is_veo_event rest"
    using video_phase_direct [OF assms, of i p "l2\<lparr>shownProgress := run_ticks (genTicks env) 10\<rparr>" s] i(2)
    by auto
  have evs: "snd (startGeneration env (l, s)) =
      evs1 @ ReplicateCall p (Some i) 5 ''480p'' ''16:9'' # ReplicateSent req # rest"
    using i pp v(1) by (auto simp: startGeneration_def Let_def split: prod.splits)
  show ?thesis
    using evs v(2-4) prompt_phase_events [OF pp] i
    by (auto simp: fixed_parameters_def is_veo_event_def)
qed

theorem replicate_used_directly_witness:
  "truthy_opt (storageAtTry replicateFirst ''REPLICATE_API_TOKEN'') \<and>
   enhancedImageUrl enhancedState = Some examplePhoto \<and> truthy examplePhoto \<and>
   \<not> list_ex is_veo_event (snd (startGeneration replicateFirst (idleGenerate, enhancedState))) \<and>
   list_all fixed_parameters (snd (startGeneration replicateFirst (idleGenerate, enhancedState))) \<and>
   (\<exists>pre p req rest.
      snd (startGeneration replicateFirst (idleGenerate, enhancedState)) =
        pre @ ReplicateCall p (Some examplePhoto) 5 ''480p'' ''16:9'' # ReplicateSent req # rest \<and>
      list_all is_prompt_call pre \<and>
      requestInput req =
        \<lparr> inputPrompt = p, inputDuration = 5, inputResolution = ''480p'',
          inputAspectRatio = ''16:9'', inputImage = Some examplePhoto,
          inputFps = 24, inputCameraFixed = False \<rparr>)"
  using replicate_used_directly [where env = replicateFirst and s = enhancedState and img = examplePhoto
              and l = idleGenerate]
  by (simp add: replicateFirst_def example_storage enhanced_photo photo_parts)

lemma video_catch_fallback:
  assumes "\<not> str_includes (thrown_message e) ''Replicate''"
    and "truthy_opt (storageAtCatch env ''REPLICATE_API_TOKEN'')"
  shows "\<exists>req res. 
     generateVideoWithReplicate (storageAtCatch env) (replicateFallback env) p (Some img) 5
       ''480p'' ''16:9'' = (res, Some req) \<and>
     snd (video_catch env img p e (l, s)) =
       [ReplicateCall p (Some img) 5 ''480p'' ''16:9'', ReplicateSent req] \<and>
     (\<forall>url. res = Inr url \<longrightarrow>
        generateError (fst (fst (video_catch env img p e (l, s)))) = generateError l \<and>
        snd (fst (video_catch env img p e (l, s))) = setVideoUrl url s) \<and>
     (\<forall>repErr. res = Inl repErr \<longrightarrow>
        generateError (fst (fst (video_catch env img p e (l, s)))) =
          Some (error_message repErr ''Video generation failed'') \<and>
        snd (fst (video_catch env img p e (l, s))) = s)"
proof -
  obtain res req where r:
    "generateVideoWithReplicate (storageAtCatch env) (replicateFallback env) p (Some img) 5
       ''480p'' ''16:9'' = (res, Some req)"
    using replicate_request [of "storageAtCatch env", OF assms(2)] by blast
  show ?thesis
    using assms r
    by (cases res) (simp_all add: video_catch_def Let_def sent_def video_success_def)
qed

lemma veo_failure_fallback:
  assumes img: "enhancedImageUrl s = Some img" "truthy img"
    and notok: "\<not> truthy_opt (storageAtTry env ''REPLICATE_API_TOKEN'')"
    and key: "(if truthy_opt (storageAtTry env ''VEO_API_KEY'')
               then storageAtTry env ''VEO_API_KEY''
               else storageAtTry env ''GEMINI_API_KEY'') = Some k" "truthy k"
    and fail: "\<forall>p. veoResult (generateVideoSimple (Some k) (genVeo env) img p) = Inl e"
    and unrelated: "\<not> str_includes (thrown_message e) ''Replicate''"
    and tok: "truthy_opt (storageAtCatch env ''REPLICATE_API_TOKEN'')"
  shows "\<exists>pre p req res.
     generateVideoWithReplicate (storageAtCatch env) (replicateFallback env) p (Some img) 5
       ''480p'' ''16:9'' = (res, Some req) \<and>
     snd (startGeneration env (l, s)) =
       pre @ [VeoInit k, VeoCall img p, ReplicateCall p (Some img) 5 ''480p'' ''16:9'',
              ReplicateSent req] \<and>
     list_all is_prompt_call pre \<and>
     (\<forall>url. res = Inr url \<longrightarrow>
        generateError (fst (fst (startGeneration env (l, s)))) = None \<and>
        snd (fst (startGeneration env (l, s))) = setVideoUrl url s) \<and>
     (\<forall>repErr. res = Inl repErr \<longrightarrow>
        generateError (fst (fst (startGeneration env (l, s)))) =
          Some (error_message repErr ''Video generation failed'') \<and>
        snd (fst (startGeneration env (l, s))) = s)"
proof -
  obtain p l2 evs1 where pp:
    "prompt_phase env img (motionPrompt s) (userNote s)
       (l\<lparr> isGenerating := True, generateError := None, shownProgress := 10,
           statusMessage := ''Analyzing image for motion...'', timerRef := True \<rparr>) = (p, l2, evs1)"
    by (metis prod_cases3)
  let ?l3 = "l2\<lparr>shownProgress := run_ticks (genTicks env) 10,
                 statusMessage := ''Generating video...''\<rparr>"
  obtain req res where c:
    "generateVideoWithReplicate (storageAtCatch env) (replicateFallback env) p (Some img) 5
       ''480p'' ''16:9'' = (res, Some req)"
    "snd (video_catch env img p e (?l3, s)) =
       [ReplicateCall p (Some img) 5 ''480p'' ''16:9'', ReplicateSent req]"
    "\<forall>url. res = Inr url \<longrightarrow>
        generateError (fst (fst (video_catch env img p e (?l3, s)))) = generateError ?l3 \<and>
        snd (fst (video_catch env img p e (?l3, s))) = setVideoUrl url s"
    "\<forall>repErr. res = Inl repErr \<longrightarrow>
        generateError (fst (fst (video_catch env img p e (?l3, s)))) =
          Some (error_message repErr ''Video generation failed'') \<and>
        snd (fst (video_catch env img p e (?l3, s))) = s"
    using video_catch_fallback [OF unrelated tok, of p img ?l3 s] by blast
  have vp: "video_phase env img p (l2\<lparr>shownProgress := run_ticks (genTicks env) 10\<rparr>, s) =
      (fst (video_catch env img p e (?l3, s)),
       VeoInit k # VeoCall img p # snd (video_catch env img p e (?l3, s)))"
    using notok key fail
    by (auto simp: video_phase_def Let_def split: prod.splits option.splits if_splits)
  have sg: "startGeneration env (l, s) =
      (fst (video_catch env img p e (?l3, s)),
       evs1 @ VeoInit k # VeoCall img p # snd (video_catch env img p e (?l3, s)))"
    using img pp vp by (simp add: startGeneration_def Let_def)
  have l3: "generateError ?l3 = None"
    using prompt_phase_events [OF pp] by simp
  show ?thesis
    using sg c l3 prompt_phase_events [OF pp] by auto
qed

text \<open>
  C9. In a run of the generation step with no motion prompt stored (empty or blank), the
  prompt is requested from the text provider; if that request throws, the step continues
  as the video phase run with the fixed sentence
  \<open>A gentle, cinematic motion around this cherished memory.\<close>: with a Replicate token the
  Replicate call carries that sentence (and a delivered clip completes the step without an
  error), and without a token but with an API key the VEO call carries it.
\<close>

theorem prompt_failure_uses_fallback:
  assumes img: "enhancedImageUrl s = Some img" "truthy img"
    and blank: "\<not> truthy (motionPrompt s) \<or> length (trim (motionPrompt s)) = 0"
    and throws: "generateVideoPromptFromImage (genPrompt env) img = Inl e"
  shows "fallbackPrompt = ''A gentle, cinematic motion around this cherished memory.'' \<and>
     startGeneration env (l, s) =
       (fst (video_phase env img fallbackPrompt
               (l\<lparr> isGenerating := True, generateError := None, shownProgress := 10,
                    statusMessage := ''Analyzing image for motion...'', timerRef := True \<rparr>
                 \<lparr>shownProgress := run_ticks (genTicks env) 10\<rparr>, s)),
        PromptCall img (if truthy (userNote s) then Some (userNote s) else None) #
        snd (video_phase env img fallbackPrompt
               (l\<lparr> isGenerating := True, generateError := None, shownProgress := 10,
                    statusMessage := ''Analyzing image for motion...'', timerRef := True \<rparr>
                 \<lparr>shownProgress := run_ticks (genTicks env) 10\<rparr>, s))) \<and>
     (truthy_opt (storageAtTry env ''REPLICATE_API_TOKEN'') \<longrightarrow>
        (\<exists>req rest. snd (startGeneration env (l, s)) =
           PromptCall img (if truthy (userNote s) then Some (userNote s) else None) #
           ReplicateCall fallbackPrompt (Some img) 5 ''480p'' ''16:9'' # ReplicateSent req # rest \<and>
           inputPrompt (requestInput req) = fallbackPrompt)) \<and>
     (\<forall>k. \<not> truthy_opt (storageAtTry env ''REPLICATE_API_TOKEN'') \<and>
          (if truthy_opt (storageAtTry env ''VEO_API_KEY'')
           then storageAtTry env ''VEO_API_KEY''
           else storageAtTry env ''GEMINI_API_KEY'') = Some k \<and> truthy k \<longrightarrow>
        (\<exists>rest. snd (startGeneration env (l, s)) =
           PromptCall img (if truthy (userNote s) then Some (userNote s) else None) #
           VeoInit k # VeoCall img fallbackPrompt # rest)) \<and>
     (\<forall>url. truthy_opt (storageAtTry env ''REPLICATE_API_TOKEN'') \<and>
          replicateDirect env = ReplicateJson (Some url) \<and> truthy url \<longrightarrow>
        generateError (fst (fst (startGeneration env (l, s)))) = None \<and>
        snd (fst (startGeneration env (l, s))) = setVideoUrl url s)"
proof -
  let ?l = "l\<lparr> isGenerating := True, generateError := None, shownProgress := 10,
                statusMessage := ''Analyzing image for motion...'', timerRef := True \<rparr>
             \<lparr>shownProgress := run_ticks (genTicks env) 10\<rparr>"
  let ?note = "if truthy (userNote s) then Some (userNote s) else None"
  have sg: "startGeneration env (l, s) =
      (fst (video_phase env img fallbackPrompt (?l, s)),
       PromptCall img ?note # snd (video_phase env img fallbackPrompt (?l, s)))"
    using img blank throws
    by (auto simp: startGeneration_def prompt_phase_def Let_def split_beta)
  have direct: "truthy_opt (storageAtTry env ''REPLICATE_API_TOKEN'') \<Longrightarrow>
      \<exists>req rest. snd (video_phase env img fallbackPrompt (?l, s)) =
           ReplicateCall fallbackPrompt (Some img) 5 ''480p'' ''16:9'' # ReplicateSent req # rest \<and>
           inputPrompt (requestInput req) = fallbackPrompt"
    using video_phase_direct [of env img fallbackPrompt ?l s] by fastforce
  have veo: "\<not> truthy_opt (storageAtTry env ''REPLICATE_API_TOKEN'') \<Longrightarrow>
          (if truthy_opt (storageAtTry env ''VEO_API_KEY'')
           then storageAtTry env ''VEO_API_KEY''
           else storageAtTry env ''GEMINI_API_KEY'') = Some k \<Longrightarrow> truthy k \<Longrightarrow>
        \<exists>rest. snd (video_phase env img fallbackPrompt (?l, s)) =
           VeoInit k # VeoCall img fallbackPrompt # rest" for k
    by (auto simp: video_phase_def Let_def split: prod.splits sum.splits if_splits)
  have finished: "truthy_opt (storageAtTry env ''REPLICATE_API_TOKEN'') \<Longrightarrow>
          replicateDirect env = ReplicateJson (Some url) \<Longrightarrow> truthy url \<Longrightarrow>
        generateError (fst (fst (video_phase env img fallbackPrompt (?l, s)))) = None \<and>
        snd (fst (video_phase env img fallbackPrompt (?l, s))) = setVideoUrl url s" for url
    by (auto simp: video_phase_def Let_def generateVideoWithReplicate_def video_success_def
          truthy_opt_def split: option.splits)
  show ?thesis
    unfolding sg using direct veo finished by (simp add: fallbackPrompt_def)
qed

theorem prompt_failure_uses_fallback_witness:
  "enhancedImageUrl enhancedState = Some examplePhoto \<and> truthy examplePhoto \<and>
   \<not> truthy (motionPrompt enhancedState) \<and>
   generateVideoPromptFromImage (genPrompt replicateFirst) examplePhoto =
     Inl (JsError ''ApiError: Failed to fetch'') \<and>
   truthy_opt (storageAtTry replicateFirst ''REPLICATE_API_TOKEN'') \<and>
   replicateDirect replicateFirst = ReplicateJson (Some ''https://replicate.delivery/clip.mp4'') \<and>
   (\<exists>req rest. snd (startGeneration replicateFirst (idleGenerate, enhancedState)) =
      PromptCall examplePhoto None #
      ReplicateCall ''A gentle, cinematic motion around this cherished memory.''
        (Some examplePhoto) 5 ''480p'' ''16:9'' # ReplicateSent req # rest \<and>
      inputPrompt (requestInput req) =
        ''A gentle, cinematic motion around this cherished memory.'') \<and>
   generateError (fst (fst (startGeneration replicateFirst (idleGenerate, enhancedState)))) = None \<and>
   snd (fst (startGeneration replicateFirst (idleGenerate, enhancedState))) =
     setVideoUrl ''https://replicate.delivery/clip.mp4'' enhancedState"
proof -
  have link: "truthy ''https://replicate.delivery/clip.mp4''"
    by (simp add: truthy_def)
  have blank: "\<not> truthy (motionPrompt enhancedState)"
    by (simp add: enhanced_photo truthy_def)
  have throws: "generateVideoPromptFromImage (genPrompt replicateFirst) examplePhoto =
     Inl (JsError ''ApiError: Failed to fetch'')"
    using prompt_request_fails by (simp add: replicateFirst_def)
  have direct: "storageAtTry replicateFirst = keyAndToken"
     "replicateDirect replicateFirst = ReplicateJson (Some ''https://replicate.delivery/clip.mp4'')"
    by (simp_all add: replicateFirst_def)
  show ?thesis
    using prompt_failure_uses_fallback [where env = replicateFirst and s = enhancedState and img = examplePhoto
                and l = idleGenerate and e = "JsError ''ApiError: Failed to fetch''",
              THEN conjunct2, THEN conjunct2]
      link blank throws
    by (simp add: direct example_storage enhanced_photo photo_parts fallbackPrompt_def)
qed

text \<open>
  C2. A VEO generation never makes more than 30 polls nor waits more than 30 times 10
  seconds; when the started operation and every poll answer report it not done, exactly 30
  polls are made, 10 seconds apart, and the call fails with the timeout error. In the
  generation step, when the VEO call fails with an error whose message does not contain
  \<open>Replicate\<close> and a Replicate token is in local storage when the failure is handled, the
  Replicate call is made after the VEO call, and the error shown, if any, is the one of
  that fallback: a delivered clip completes the step.
\<close>

theorem veo_timeout_and_fallback:
  "veoPollCount (generateVideo key venv bytes q cb mime) \<le> 30 \<and>
   veoWaitedMs (generateVideo key venv bytes q cb mime) \<le> 30 * 10000 \<and>
   (truthy_opt key \<and> veoStart venv = StartJson started \<and> \<not> opDone started \<and>
    (\<forall>k<30. not_done (veoPolls venv k)) \<longrightarrow>
      veoResult (generateVideo key venv bytes q cb mime) =
        Inl (JsError ''Video generation timed out. Please try again.'') \<and>
      veoPollCount (generateVideo key venv bytes q cb mime) = 30 \<and>
      veoWaitedMs (generateVideo key venv bytes q cb mime) = 30 * 10000) \<and>
   (enhancedImageUrl s = Some img \<and> truthy img \<and>
    \<not> truthy_opt (storageAtTry env ''REPLICATE_API_TOKEN'') \<and>
    (if truthy_opt (storageAtTry env ''VEO_API_KEY'')
     then storageAtTry env ''VEO_API_KEY''
     else storageAtTry env ''GEMINI_API_KEY'') = Some k \<and> truthy k \<and>
    (\<forall>p. veoResult (generateVideoSimple (Some k) (genVeo env) img p) = Inl e) \<and>
    \<not> str_includes (thrown_message e) ''Replicate'' \<and>
    truthy_opt (storageAtCatch env ''REPLICATE_API_TOKEN'') \<longrightarrow>
      (\<exists>pre p req res.
         generateVideoWithReplicate (storageAtCatch env) (replicateFallback env) p (Some img) 5
           ''480p'' ''16:9'' = (res, Some req) \<and>
         snd (startGeneration env (l, s)) =
           pre @ [VeoInit k, VeoCall img p, ReplicateCall p (Some img) 5 ''480p'' ''16:9'',
                  ReplicateSent req] \<and>
         list_all is_prompt_call pre \<and>
         (\<forall>url. res = Inr url \<longrightarrow>
            generateError (fst (fst (startGeneration env (l, s)))) = None \<and>
            snd (fst (startGeneration env (l, s))) = setVideoUrl url s) \<and>
         (\<forall>repErr. res = Inl repErr \<longrightarrow>
            generateError (fst (fst (startGeneration env (l, s)))) =
              Some (error_message repErr ''Video generation failed'') \<and>
            snd (fst (startGeneration env (l, s))) = s)))"
  using generateVideo_bounds [of key venv bytes q cb mime]
    generateVideo_timeout [of key venv started bytes q cb mime]
    veo_failure_fallback [of s img env k e l]
  by (simp add: maxPolls_def)

lemma timeout_unrelated:
  "\<not> str_includes (thrown_message (JsError ''Video generation timed out. Please try again.''))
       ''Replicate''"
  by (simp add: thrown_message_def startsWith_def)

theorem veo_timeout_and_fallback_witness:
  "truthy_opt (Some ''AIza-key'') \<and> veoStart stalledVeo = StartJson pendingOperation \<and>
   \<not> opDone pendingOperation \<and>
   list_all (\<lambda>k. not_done (veoPolls stalledVeo k)) [0..<30] \<and>
   veoResult (generateVideo (Some ''AIza-key'') stalledVeo (Some ''AAAA'') ''zoom out'' False
                ''image/jpeg'') =
     Inl (JsError ''Video generation timed out. Please try again.'') \<and>
   veoPollCount (generateVideo (Some ''AIza-key'') stalledVeo (Some ''AAAA'') ''zoom out'' False
                ''image/jpeg'') = 30 \<and>
   veoWaitedMs (generateVideo (Some ''AIza-key'') stalledVeo (Some ''AAAA'') ''zoom out'' False
                ''image/jpeg'') = 300000 \<and>
   enhancedImageUrl enhancedState = Some examplePhoto \<and> truthy examplePhoto \<and>
   \<not> truthy_opt (storageAtTry lateToken ''REPLICATE_API_TOKEN'') \<and>
   truthy_opt (storageAtCatch lateToken ''REPLICATE_API_TOKEN'') \<and>
   (\<forall>p. veoResult (generateVideoSimple (Some ''AIza-key'') (genVeo lateToken) examplePhoto p) =
          Inl (JsError ''Video generation timed out. Please try again.'')) \<and>
   (\<exists>pre p req.
      snd (startGeneration lateToken (idleGenerate, enhancedState)) =
        pre @ [VeoInit ''AIza-key'', VeoCall examplePhoto p,
               ReplicateCall p (Some examplePhoto) 5 ''480p'' ''16:9'', ReplicateSent req]) \<and>
   generateError (fst (fst (startGeneration lateToken (idleGenerate, enhancedState)))) = None \<and>
   snd (fst (startGeneration lateToken (idleGenerate, enhancedState))) =
     setVideoUrl ''https://replicate.delivery/clip.mp4'' enhancedState"
proof -
  have key: "truthy_opt (Some ''AIza-key'')"
    by (simp add: truthy_opt_def truthy_def)
  have start: "veoStart stalledVeo = StartJson pendingOperation" "\<not> opDone pendingOperation"
    by (simp_all add: stalledVeo_def pendingOperation_def)
  have stalled: "\<forall>k<30. not_done (veoPolls stalledVeo k)"
    by (simp add: stalledVeo_def not_done_def pendingOperation_def)
  then have listed: "list_all (\<lambda>k. not_done (veoPolls stalledVeo k)) [0..<30]"
    by (simp add: list_all_iff)
  have timeout:
    "veoResult (generateVideo (Some ''AIza-key'') stalledVeo bytes q cb mime) =
       Inl (JsError ''Video generation timed out. Please try again.'') \<and>
     veoPollCount (generateVideo (Some ''AIza-key'') stalledVeo bytes q cb mime) = 30 \<and>
     veoWaitedMs (generateVideo (Some ''AIza-key'') stalledVeo bytes q cb mime) = 30 * 10000"
    for bytes q cb mime
    using veo_timeout_and_fallback [where key = "Some ''AIza-key''" and venv = stalledVeo and started = pendingOperation
                and bytes = bytes and q = q and cb = cb and mime = mime,
              THEN conjunct2, THEN conjunct2, THEN conjunct1]
      key start stalled
    by blast
  have env: "storageAtTry lateToken = keyOnly" "storageAtCatch lateToken = keyAndToken"
    "genVeo lateToken = stalledVeo"
    "replicateFallback lateToken = ReplicateJson (Some ''https://replicate.delivery/clip.mp4'')"
    by (simp_all add: lateToken_def)
  have bytes: "truthy_opt (Some ''AAAA'')"
    by (simp add: truthy_opt_def truthy_def)
  have fail: "\<forall>p. veoResult (generateVideoSimple (Some ''AIza-key'') (genVeo lateToken)
                         examplePhoto p) =
                 Inl (JsError ''Video generation timed out. Please try again.'')"
    using timeout by (simp add: env generateVideoSimple_def photo_parts bytes Let_def)
  have pick: "(if truthy_opt (storageAtTry lateToken ''VEO_API_KEY'')
               then storageAtTry lateToken ''VEO_API_KEY''
               else storageAtTry lateToken ''GEMINI_API_KEY'') = Some ''AIza-key''"
    by (simp add: env example_storage)
  obtain pre p req res where run:
    "generateVideoWithReplicate (storageAtCatch lateToken) (replicateFallback lateToken) p
       (Some examplePhoto) 5 ''480p'' ''16:9'' = (res, Some req)"
    "snd (startGeneration lateToken (idleGenerate, enhancedState)) =
       pre @ [VeoInit ''AIza-key'', VeoCall examplePhoto p,
              ReplicateCall p (Some examplePhoto) 5 ''480p'' ''16:9'', ReplicateSent req]"
    "\<forall>url. res = Inr url \<longrightarrow>
       generateError (fst (fst (startGeneration lateToken (idleGenerate, enhancedState)))) = None \<and>
       snd (fst (startGeneration lateToken (idleGenerate, enhancedState))) =
         setVideoUrl url enhancedState"
    using veo_timeout_and_fallback [where s = enhancedState and img = examplePhoto and env = lateToken
                and k = "''AIza-key''" and l = idleGenerate
                and e = "JsError ''Video generation timed out. Please try again.''",
              THEN conjunct2, THEN conjunct2, THEN conjunct2]
      enhanced_photo(1) photo_parts(4) example_storage pick fail timeout_unrelated
    by (auto simp: env)
  have "res = Inr ''https://replicate.delivery/clip.mp4''"
    using run(1)
    by (simp add: env generateVideoWithReplicate_def keyAndToken_def truthy_def Let_def)
  then show ?thesis
    using run(2,3) key start listed timeout [of "Some ''AAAA''" "''zoom out''" False "''image/jpeg''"]
      fail enhanced_photo(1) photo_parts(4) example_storage
    by (auto simp: env)
qed

section \<open>Properties of the progress values\<close>

lemma clamp_finite:
  "js_max (Num 0) (js_min (Num 100) (Num r)) = Num (max 0 (min 100 r))"
  by simp

lemma clamp_in_percent:
  "p \<noteq> NaN \<Longrightarrow> in_percent (js_max (Num 0) (js_min (Num 100) p))"
  by (cases p) (simp_all add: in_percent_def)

lemma dispatch_progress:
  "in_percent (progress s) \<Longrightarrow> a \<noteq> SetProgress NaN \<Longrightarrow> in_percent (progress (dispatch a s))"
proof (cases a)
  case (SetProgress p)
  assume "a \<noteq> SetProgress NaN"
  with SetProgress have "p \<noteq> NaN" by simp
  with SetProgress show ?thesis
    by (simp add: setProgress_def clamp_in_percent)
qed (simp_all add: setCurrentStep_def setOriginalImage_def setEnhancedImage_def setVideoUrl_def
        setUserNote_def setMotionPrompt_def setProcessing_def setError_def
        setApiKey_def clearApiKey_def startProcessing_def completeProcessing_def
        setEstimatedTime_def resetWorkflow_def clearMedia_def initialState_def in_percent_def)

lemma run_store_progress:
  "SetProgress NaN \<notin> set acts \<Longrightarrow> in_percent (progress (run_store acts))"
proof (induction acts rule: rev_induct)
  case Nil
  show ?case by (simp add: run_store_def initialState_def in_percent_def)
next
  case (snoc a acts)
  then show ?case
    using dispatch_progress [of "run_store acts" a] by (auto simp: run_store_def)
qed

lemma enhance_ticks: "0 \<le> (enhance_tick ^^ n) 0 \<and> (enhance_tick ^^ n) 0 \<le> 90"
  by (induction n) (auto simp: enhance_tick_def)

lemma run_ticks_le: "shown \<le> 90 \<Longrightarrow> run_ticks ticks shown \<le> 90"
  by (induction ticks arbitrary: shown) (auto simp: gentle_tick_def)


lemma enh_done:
  "originalImageDataUrl s = Some img \<Longrightarrow> truthy img \<Longrightarrow>
   startEnhancement env (l, s) = ((l', s'), calls) \<Longrightarrow>
   (enhanceProgress l' = 100 \<and> enhanceError l' = None \<and> (\<exists>u c. s' = setEnhancedImage u c s))
   \<or> (enhanceProgress l' = 0 \<and> enhanceError l' \<noteq> None \<and> s' = s)"
  by (auto simp: startEnhancement_def Let_def split: prod.splits sum.splits option.splits if_splits)

lemma video_success_shape:
  "video_success url (l, s) = (l', s') \<Longrightarrow>
     shownProgress l' = 100 \<and> generateError l' = generateError l \<and> s' = setVideoUrl url s"
  by (auto simp: video_success_def)

lemma video_catch_shape:
  "video_catch env img p e (l, s) = ((l', s'), evs) \<Longrightarrow>
   (shownProgress l' = 100 \<and> generateError l' = generateError l \<and> (\<exists>url. s' = setVideoUrl url s))
   \<or> (shownProgress l' = shownProgress l \<and> generateError l' \<noteq> None \<and> s' = s)"
  by (auto simp: video_catch_def video_success_def Let_def split: prod.splits sum.splits if_splits)

lemma video_phase_shape:
  "video_phase env img p (l, s) = ((l', s'), evs) \<Longrightarrow>
   (shownProgress l' = 100 \<and> generateError l' = generateError l \<and> (\<exists>url. s' = setVideoUrl url s))
   \<or> (shownProgress l' = shownProgress l \<and> generateError l' \<noteq> None \<and> s' = s)"
  unfolding video_phase_def Let_def
  by (auto simp: video_success_def split: prod.splits sum.splits if_splits option.splits
           dest!: video_catch_shape)


lemma startGeneration_shape:
  assumes "enhancedImageUrl s = Some img" "truthy img"
    and "startGeneration env (l, s) = ((l', s'), evs)"
  shows "(shownProgress l' = 100 \<and> generateError l' = None \<and> (\<exists>url. s' = setVideoUrl url s))
       \<or> (shownProgress l' \<le> 90 \<and> generateError l' \<noteq> None \<and> s' = s)"
proof -
  obtain p l2 evs1 where pp:
    "prompt_phase env img (motionPrompt s) (userNote s)
       (l\<lparr> isGenerating := True, generateError := None, shownProgress := 10,
           statusMessage := ''Analyzing image for motion...'', timerRef := True \<rparr>) = (p, l2, evs1)"
    by (metis prod_cases3)
  then have l2: "generateError l2 = None"
    by (auto simp: prompt_phase_def split: if_splits sum.splits)
  obtain evs2 where vp:
    "video_phase env img p (l2\<lparr>shownProgress := run_ticks (genTicks env) 10\<rparr>, s) = ((l', s'), evs2)"
    using assms pp by (auto simp: startGeneration_def Let_def split: prod.splits)
  show ?thesis
    using video_phase_shape [OF vp] l2 run_ticks_le [of 10 "genTicks env"] by auto
qed

text \<open>
  C7 as stated fails: \<open>setProgress\<close> does not bring every argument into [0, 100]. For
  the argument NaN both \<open>Math.min\<close> and \<open>Math.max\<close> return NaN, which is what gets stored.
\<close>

theorem setProgress_stores_NaN:
  "progress (setProgress NaN initialState) = NaN \<and>
   \<not> in_percent (progress (setProgress NaN initialState))"
  by (simp add: setProgress_def in_percent_def)

text \<open>
  C7, amended. \<open>setProgress\<close> stores \<open>Math.max(0, Math.min(100, p))\<close>: for every argument
  other than NaN this lies in [0, 100] (for a finite \<open>p\<close> it is \<open>max 0 (min 100 p)\<close>), and
  after any sequence of store actions that never hands NaN to \<open>setProgress\<close> the stored
  progress lies in [0, 100]. The enhancement ticker yields \<open>min (prev + 10) 90\<close>
  and stays within [0, 90] from 0; the generation ticker shows \<open>min 90\<close> of the eased value,
  so what is shown while awaiting is at most 90. A run of the enhancement step ends with
  progress 100 exactly when the enhanced image was stored and with 0 otherwise; a run of
  the generation step ends with 100 exactly when the video was stored and at most 90
  otherwise.
\<close>

theorem progress_bounds:
  "progress (setProgress p s) = js_max (Num 0) (js_min (Num 100) p) \<and>
   progress (setProgress (Num r) s) = Num (max 0 (min 100 r)) \<and>
   (p \<noteq> NaN \<longrightarrow> in_percent (progress (setProgress p s))) \<and>
   (SetProgress NaN \<notin> set acts \<longrightarrow> in_percent (progress (run_store acts))) \<and>
   enhance_tick prev = min (prev + 10) 90 \<and> enhance_tick prev \<le> 90 \<and>
   0 \<le> (enhance_tick ^^ n) 0 \<and> (enhance_tick ^^ n) 0 \<le> 90 \<and>
   gentle_tick elapsed = min 90 (newProgress elapsed) \<and> gentle_tick elapsed \<le> 90 \<and>
   run_ticks ticks 10 \<le> 90 \<and>
   (originalImageDataUrl s = Some img \<and> truthy img \<longrightarrow>
      (enhanceProgress (fst (fst (startEnhancement eenv (el, s)))) = 100 \<and>
       enhanceError (fst (fst (startEnhancement eenv (el, s)))) = None \<and>
       (\<exists>u c. snd (fst (startEnhancement eenv (el, s))) = setEnhancedImage u c s)) \<or>
      (enhanceProgress (fst (fst (startEnhancement eenv (el, s)))) = 0 \<and>
       enhanceError (fst (fst (startEnhancement eenv (el, s)))) \<noteq> None \<and>
       snd (fst (startEnhancement eenv (el, s))) = s)) \<and>
   (enhancedImageUrl s = Some img \<and> truthy img \<longrightarrow>
      (shownProgress (fst (fst (startGeneration genv (gl, s)))) = 100 \<and>
       generateError (fst (fst (startGeneration genv (gl, s)))) = None \<and>
       (\<exists>url. snd (fst (startGeneration genv (gl, s))) = setVideoUrl url s)) \<or>
      (shownProgress (fst (fst (startGeneration genv (gl, s)))) \<le> 90 \<and>
       generateError (fst (fst (startGeneration genv (gl, s)))) \<noteq> None \<and>
       snd (fst (startGeneration genv (gl, s))) = s))"
proof -
  have store: "progress (setProgress p s) = js_max (Num 0) (js_min (Num 100) p) \<and>
     progress (setProgress (Num r) s) = Num (max 0 (min 100 r)) \<and>
     (p \<noteq> NaN \<longrightarrow> in_percent (progress (setProgress p s)))"
    using clamp_in_percent [of p] by (simp add: setProgress_def)
  have runs: "SetProgress NaN \<notin> set acts \<longrightarrow> in_percent (progress (run_store acts))"
    using run_store_progress [of acts] by blast
  have tick: "enhance_tick prev = min (prev + 10) 90 \<and> enhance_tick prev \<le> 90 \<and>
     gentle_tick elapsed = min 90 (newProgress elapsed) \<and> gentle_tick elapsed \<le> 90"
    by (simp add: enhance_tick_def gentle_tick_def)
  have enh: "originalImageDataUrl s = Some img \<and> truthy img \<longrightarrow>
      (enhanceProgress (fst (fst (startEnhancement eenv (el, s)))) = 100 \<and>
       enhanceError (fst (fst (startEnhancement eenv (el, s)))) = None \<and>
       (\<exists>u c. snd (fst (startEnhancement eenv (el, s))) = setEnhancedImage u c s)) \<or>
      (enhanceProgress (fst (fst (startEnhancement eenv (el, s)))) = 0 \<and>
       enhanceError (fst (fst (startEnhancement eenv (el, s)))) \<noteq> None \<and>
       snd (fst (startEnhancement eenv (el, s))) = s)"
    using enh_done [of s img eenv el "fst (fst (startEnhancement eenv (el, s)))"
        "snd (fst (startEnhancement eenv (el, s)))" "snd (startEnhancement eenv (el, s))"]
    by auto
  have gen: "enhancedImageUrl s = Some img \<and> truthy img \<longrightarrow>
      (shownProgress (fst (fst (startGeneration genv (gl, s)))) = 100 \<and>
       generateError (fst (fst (startGeneration genv (gl, s)))) = None \<and>
       (\<exists>url. snd (fst (startGeneration genv (gl, s))) = setVideoUrl url s)) \<or>
      (shownProgress (fst (fst (startGeneration genv (gl, s)))) \<le> 90 \<and>
       generateError (fst (fst (startGeneration genv (gl, s)))) \<noteq> None \<and>
       snd (fst (startGeneration genv (gl, s))) = s)"
    using startGeneration_shape [of s img genv gl "fst (fst (startGeneration genv (gl, s)))"
        "snd (fst (startGeneration genv (gl, s)))" "snd (startGeneration genv (gl, s))"]
    by auto
  have shown: "run_ticks ticks 10 \<le> 90"
    by (rule run_ticks_le) simp
  show ?thesis
    using store runs tick enh gen shown enhance_ticks [of n]
    by blast
qed

theorem progress_bounds_witness:
  "Num 250 \<noteq> NaN \<and>
   progress (setProgress (Num 250) enhancedState) = Num 100 \<and>
   in_percent (progress (setProgress (Num 250) enhancedState)) \<and>
   NegInfinity \<noteq> NaN \<and> in_percent (progress (setProgress NegInfinity enhancedState)) \<and>
   SetProgress NaN \<notin> set [SetProgress (Num 250), StartProcessing 0, SetProgress PosInfinity] \<and>
   in_percent
     (progress (run_store [SetProgress (Num 250), StartProcessing 0, SetProgress PosInfinity])) \<and>
   enhance_tick 85 = 90 \<and> (enhance_tick ^^ 12) 0 \<le> 90 \<and>
   gentle_tick 60000 \<le> 90 \<and> run_ticks [1000, 30000] 10 \<le> 90 \<and>
   originalImageDataUrl enhancedState = Some examplePhoto \<and>
   enhancedImageUrl enhancedState = Some examplePhoto \<and> truthy examplePhoto \<and>
   ((enhanceProgress (fst (fst (startEnhancement replicateDown (idleEnhance, enhancedState)))) = 100 \<and>
     enhanceError (fst (fst (startEnhancement replicateDown (idleEnhance, enhancedState)))) = None \<and>
     (\<exists>u c. snd (fst (startEnhancement replicateDown (idleEnhance, enhancedState))) =
              setEnhancedImage u c enhancedState)) \<or>
    (enhanceProgress (fst (fst (startEnhancement replicateDown (idleEnhance, enhancedState)))) = 0 \<and>
     enhanceError (fst (fst (startEnhancement replicateDown (idleEnhance, enhancedState)))) \<noteq> None \<and>
     snd (fst (startEnhancement replicateDown (idleEnhance, enhancedState))) = enhancedState)) \<and>
   ((shownProgress (fst (fst (startGeneration replicateFirst (idleGenerate, enhancedState)))) = 100 \<and>
     generateError (fst (fst (startGeneration replicateFirst (idleGenerate, enhancedState)))) = None \<and>
     (\<exists>url. snd (fst (startGeneration replicateFirst (idleGenerate, enhancedState))) =
              setVideoUrl url enhancedState)) \<or>
    (shownProgress (fst (fst (startGeneration replicateFirst (idleGenerate, enhancedState)))) \<le> 90 \<and>
     generateError (fst (fst (startGeneration replicateFirst (idleGenerate, enhancedState)))) \<noteq> None \<and>
     snd (fst (startGeneration replicateFirst (idleGenerate, enhancedState))) = enhancedState))"
proof -
  note main = progress_bounds [where p = "Num 250" and r = 250 and s = enhancedState
      and acts = "[SetProgress (Num 250), StartProcessing 0, SetProgress PosInfinity]"
      and prev = 85 and n = 12 and elapsed = 60000 and ticks = "[1000, 30000]"
      and img = examplePhoto and eenv = replicateDown and el = idleEnhance
      and genv = replicateFirst and gl = idleGenerate]
  have given: "Num 250 \<noteq> NaN" "NegInfinity \<noteq> NaN"
    "SetProgress NaN \<notin> set [SetProgress (Num 250), StartProcessing 0, SetProgress PosInfinity]"
    by simp_all
  have top: "progress (setProgress (Num 250) enhancedState) = Num 100"
    using main by simp
  have low: "in_percent (progress (setProgress NegInfinity enhancedState))"
    using progress_bounds [where p = NegInfinity and s = enhancedState] given(2) by blast
  have tick: "enhance_tick 85 = 90"
    using main by simp
  show ?thesis
    using main given top low tick enhanced_photo(1,2) photo_parts(4) by blast
qed

end
